theory Spec2Isabelle
  imports Main "HOL-Library.Word"
begin

unbundle bit_operations_syntax

section \<open>Python values used by the licensing core\<close>

text \<open>
  Exceptions are values.  \<open>LicenseError\<close> and \<open>AuthenticationError\<close> are the two domain
  exceptions of the repository and carry their message; the others are the built-in or
  sqlite3 exceptions that the modelled statements can raise.
\<close>

datatype error =
    LicenseError string
  | AuthenticationError string
  | OverflowError
  | TypeError
  | AttributeError string
  | OperationalError string
  | IntegrityError string
  | ValueError string

text \<open>
  A \<open>datetime.date\<close> is modelled by its proleptic Gregorian ordinal
  (\<open>date.toordinal()\<close>): \<open>date.min\<close> is 1 and \<open>date.max\<close> (9999-12-31) is 3652059.
  \<open>date + timedelta(days=n)\<close> raises \<open>OverflowError\<close> when \<open>n\<close> is not a legal
  \<open>timedelta\<close> or when the sum leaves the range of \<open>date\<close>.
\<close>

definition date_min :: int where "date_min = 1"
definition date_max :: int where "date_max = 3652059"
definition timedelta_max_days :: int where "timedelta_max_days = 999999999"

definition date_add_days :: "int \<Rightarrow> int \<Rightarrow> error + int" where
  "date_add_days d n =
     (if \<bar>n\<bar> > timedelta_max_days then Inl OverflowError
      else if d + n < date_min \<or> d + n > date_max then Inl OverflowError
      else Inr (d + n))"

text \<open>Values held in a row of the SQLite database, and Python's truth test on them.\<close>

datatype sqlval =
    Null
  | IntV int
  | BoolV bool
  | TextV string
  | DateV int
  | JsonV "string list"

fun truthy :: "sqlval option \<Rightarrow> bool" where
  "truthy None = False"
| "truthy (Some Null) = False"
| "truthy (Some (IntV n)) = (n \<noteq> 0)"
| "truthy (Some (BoolV b)) = b"
| "truthy (Some (TextV s)) = (s \<noteq> [])"
| "truthy (Some (DateV d)) = True"
| "truthy (Some (JsonV xs)) = True"

section \<open>String helpers\<close>

fun join :: "string \<Rightarrow> string list \<Rightarrow> string" where
  "join sep [] = []"
| "join sep [x] = x"
| "join sep (x # y # ys) = x @ sep @ join sep (y # ys)"

text \<open>The characters that \<open>str.strip()\<close> removes, among the code points below 256.\<close>

definition is_space :: "char \<Rightarrow> bool" where
  "is_space c = ((of_char c :: nat) \<in> {9, 10, 11, 12, 13, 28, 29, 30, 31, 32, 133, 160})"

definition strip :: "string \<Rightarrow> string" where
  "strip s = rev (dropWhile is_space (rev (dropWhile is_space s)))"

fun split_on :: "char \<Rightarrow> string \<Rightarrow> string list" where
  "split_on c [] = [[]]"
| "split_on c (x # xs) =
     (if x = c then [] # split_on c xs
      else (case split_on c xs of
              [] \<Rightarrow> [[x]]
            | w # ws \<Rightarrow> (x # w) # ws))"

definition digit_char :: "nat \<Rightarrow> char" where
  "digit_char n = (''0123456789ABCDEF'') ! (n mod 16)"

text \<open>\<open>str(n)\<close> for a non-negative integer.\<close>

function str_nat :: "nat \<Rightarrow> string" where
  "str_nat n = (if n < 10 then [digit_char n] else str_nat (n div 10) @ [digit_char (n mod 10)])"
  by pat_completeness auto
termination by (relation "measure id") auto

declare str_nat.simps [simp del]

text \<open>The digits of \<open>'%X' % n\<close>, and \<open>'%012X' % n\<close> with its zero padding.\<close>

function hex_upper :: "nat \<Rightarrow> string" where
  "hex_upper n = (if n < 16 then [digit_char n] else hex_upper (n div 16) @ [digit_char (n mod 16)])"
  by pat_completeness auto
termination by (relation "measure id") auto

declare hex_upper.simps [simp del]

definition format_012X :: "nat \<Rightarrow> string" where
  "format_012X n = replicate (12 - length (hex_upper n)) (CHR ''0'') @ hex_upper n"

text \<open>\<open>str.encode()\<close>: UTF-8, for the code points below 256 that a \<open>char\<close> holds.\<close>

definition utf8_char :: "char \<Rightarrow> nat list" where
  "utf8_char c =
     (let n = (of_char c :: nat)
      in if n < 128 then [n] else [192 + n div 64, 128 + n mod 64])"

definition encode :: "string \<Rightarrow> nat list" where
  "encode s = concat (map utf8_char s)"

section \<open>SHA-256 (\<open>hashlib.sha256\<close>, FIPS 180-4)\<close>

type_synonym w32 = "32 word"

definition rotr :: "nat \<Rightarrow> w32 \<Rightarrow> w32" where
  "rotr n x = (drop_bit n x) OR (push_bit (32 - n) x)"

text \<open>The sixty-four round constants, in the eight groups of eight rounds that use them.\<close>

definition K256_0 :: "w32 list" where
  "K256_0 = [0x428a2f98, 0x71374491, 0xb5c0fbcf, 0xe9b5dba5, 0x3956c25b, 0x59f111f1, 0x923f82a4, 0xab1c5ed5]"

definition K256_1 :: "w32 list" where
  "K256_1 = [0xd807aa98, 0x12835b01, 0x243185be, 0x550c7dc3, 0x72be5d74, 0x80deb1fe, 0x9bdc06a7, 0xc19bf174]"

definition K256_2 :: "w32 list" where
  "K256_2 = [0xe49b69c1, 0xefbe4786, 0x0fc19dc6, 0x240ca1cc, 0x2de92c6f, 0x4a7484aa, 0x5cb0a9dc, 0x76f988da]"

definition K256_3 :: "w32 list" where
  "K256_3 = [0x983e5152, 0xa831c66d, 0xb00327c8, 0xbf597fc7, 0xc6e00bf3, 0xd5a79147, 0x06ca6351, 0x14292967]"

definition K256_4 :: "w32 list" where
  "K256_4 = [0x27b70a85, 0x2e1b2138, 0x4d2c6dfc, 0x53380d13, 0x650a7354, 0x766a0abb, 0x81c2c92e, 0x92722c85]"

definition K256_5 :: "w32 list" where
  "K256_5 = [0xa2bfe8a1, 0xa81a664b, 0xc24b8b70, 0xc76c51a3, 0xd192e819, 0xd6990624, 0xf40e3585, 0x106aa070]"

definition K256_6 :: "w32 list" where
  "K256_6 = [0x19a4c116, 0x1e376c08, 0x2748774c, 0x34b0bcb5, 0x391c0cb3, 0x4ed8aa4a, 0x5b9cca4f, 0x682e6ff3]"

definition K256_7 :: "w32 list" where
  "K256_7 = [0x748f82ee, 0x78a5636f, 0x84c87814, 0x8cc70208, 0x90befffa, 0xa4506ceb, 0xbef9a3f7, 0xc67178f2]"

definition K256 :: "w32 list" where
  "K256 = K256_0 @ K256_1 @ K256_2 @ K256_3 @ K256_4 @ K256_5 @ K256_6 @ K256_7"

definition H256 :: "w32 list" where
  "H256 = [0x6a09e667, 0xbb67ae85, 0x3c6ef372, 0xa54ff53a,
           0x510e527f, 0x9b05688c, 0x1f83d9ab, 0x5be0cd19]"

definition ssig0 :: "w32 \<Rightarrow> w32" where
  "ssig0 x = rotr 7 x XOR rotr 18 x XOR drop_bit 3 x"

definition ssig1 :: "w32 \<Rightarrow> w32" where
  "ssig1 x = rotr 17 x XOR rotr 19 x XOR drop_bit 10 x"

definition bsig0 :: "w32 \<Rightarrow> w32" where
  "bsig0 x = rotr 2 x XOR rotr 13 x XOR rotr 22 x"

definition bsig1 :: "w32 \<Rightarrow> w32" where
  "bsig1 x = rotr 6 x XOR rotr 11 x XOR rotr 25 x"

definition ch :: "w32 \<Rightarrow> w32 \<Rightarrow> w32 \<Rightarrow> w32" where
  "ch x y z = (x AND y) XOR (NOT x AND z)"

definition maj :: "w32 \<Rightarrow> w32 \<Rightarrow> w32 \<Rightarrow> w32" where
  "maj x y z = (x AND y) XOR (x AND z) XOR (y AND z)"

text \<open>One step of the message schedule; the list is kept newest-first, so that
  \<open>ws ! 1\<close> is \<open>W[t-2]\<close> and \<open>ws ! 15\<close> is \<open>W[t-16]\<close>.\<close>

definition sched_step :: "w32 list \<Rightarrow> nat \<Rightarrow> w32 list" where
  "sched_step ws t = (ssig1 (ws ! 1) + ws ! 6 + ssig0 (ws ! 14) + ws ! 15) # ws"

definition schedule :: "w32 list \<Rightarrow> w32 list" where
  "schedule blk = rev (foldl sched_step (rev blk) [16..<64])"

fun round256 :: "w32 list \<Rightarrow> (w32 \<times> w32) \<Rightarrow> w32 list" where
  "round256 [a, b, c, d, e, f, g, h] (k, w) =
     (let t1 = h + bsig1 e + ch e f g + k + w;
          t2 = bsig0 a + maj a b c
      in [t1 + t2, a, b, c, d + t1, e, f, g])"
| "round256 s _ = s"

definition compress :: "w32 list \<Rightarrow> w32 list \<Rightarrow> w32 list" where
  "compress hs blk = map2 (+) hs (foldl round256 hs (zip K256 (schedule blk)))"

fun be_words :: "nat list \<Rightarrow> w32 list" where
  "be_words (a # b # c # d # r) =
     (push_bit 24 (of_nat a) OR push_bit 16 (of_nat b) OR push_bit 8 (of_nat c) OR of_nat d)
       # be_words r"
| "be_words _ = []"

function blocks :: "nat list \<Rightarrow> nat list list" where
  "blocks [] = []"
| "blocks (x # xs) = take 64 (x # xs) # blocks (drop 64 (x # xs))"
  by pat_completeness auto
termination by (relation "measure length") auto

fun be_bytes :: "nat \<Rightarrow> nat \<Rightarrow> nat list" where
  "be_bytes 0 v = []"
| "be_bytes (Suc n) v = be_bytes n (v div 256) @ [v mod 256]"

definition pad256 :: "nat list \<Rightarrow> nat list" where
  "pad256 m =
     m @ [128] @ replicate ((119 - length m mod 64) mod 64) 0 @ be_bytes 8 (8 * length m)"

definition word_bytes :: "w32 \<Rightarrow> nat list" where
  "word_bytes w = map (\<lambda>n. unat (drop_bit n w AND 255)) [24, 16, 8, 0]"

definition sha256 :: "nat list \<Rightarrow> nat list" where
  "sha256 m = concat (map word_bytes (foldl compress H256 (map be_words (blocks (pad256 m)))))"

definition hex_digit :: "nat \<Rightarrow> char" where
  "hex_digit n = (''0123456789abcdef'') ! (n mod 16)"

definition hexdigest :: "nat list \<Rightarrow> string" where
  "hexdigest bs = concat (map (\<lambda>b. [hex_digit (b div 16), hex_digit b]) bs)"

definition sha256_hexdigest :: "string \<Rightarrow> string" where
  "sha256_hexdigest s = hexdigest (sha256 (encode s))"

section \<open>The host and the two fingerprint generators\<close>

text \<open>
  What the fingerprint code reads from the machine: the results of \<open>platform.node()\<close>,
  \<open>platform.machine()\<close>, \<open>platform.processor()\<close>, \<open>platform.system()\<close> and
  \<open>uuid.getnode()\<close>, and the standard output of the three \<open>wmic\<close> queries
  (\<open>None\<close> when \<open>subprocess.run\<close> raises, which the code swallows).
\<close>

record host =
  node :: string
  machine :: string
  processor :: string
  system :: string
  getnode :: nat
  wmic_cpu :: "string option"
  wmic_disk :: "string option"
  wmic_baseboard :: "string option"

text \<open>license/license\_manager.py, class \<open>MachineFingerprint\<close>.\<close>

definition fingerprint_str :: "host \<Rightarrow> string" where
  "fingerprint_str h = join ''|'' [node h, machine h, processor h, str_nat (getnode h)]"

definition MachineFingerprint_generate :: "host \<Rightarrow> string" where
  "MachineFingerprint_generate h = take 32 (sha256_hexdigest (fingerprint_str h))"

definition MachineFingerprint_verify :: "host \<Rightarrow> string \<Rightarrow> bool" where
  "MachineFingerprint_verify h stored_fingerprint =
     (MachineFingerprint_generate h = stored_fingerprint)"

text \<open>license/machine\_fingerprint.py.\<close>

definition get_mac_address :: "host \<Rightarrow> string" where
  "get_mac_address h =
     (let s = format_012X (getnode h)
      in join '':'' (map (\<lambda>i. take 2 (drop i s)) [0, 2, 4, 6, 8, 10]))"

text \<open>The second line of a \<open>wmic\<close> answer, as the three hardware queries read it.\<close>

definition wmic_second_line :: "string \<Rightarrow> string option" where
  "wmic_second_line out =
     (let lines = split_on (CHR 0x0A) (strip out)
      in if length lines > 1 then Some (strip (lines ! 1)) else None)"

definition get_cpu_id :: "host \<Rightarrow> string" where
  "get_cpu_id h =
     (if system h = ''Windows'' then
        (case wmic_cpu h of
           None \<Rightarrow> processor h
         | Some out \<Rightarrow> (case wmic_second_line out of Some l \<Rightarrow> l | None \<Rightarrow> processor h))
      else processor h)"

definition get_disk_serial :: "host \<Rightarrow> string" where
  "get_disk_serial h =
     (if system h = ''Windows'' then
        (case wmic_disk h of
           None \<Rightarrow> []
         | Some out \<Rightarrow> (case wmic_second_line out of Some l \<Rightarrow> l | None \<Rightarrow> []))
      else [])"

definition get_motherboard_serial :: "host \<Rightarrow> string" where
  "get_motherboard_serial h =
     (if system h = ''Windows'' then
        (case wmic_baseboard h of
           None \<Rightarrow> []
         | Some out \<Rightarrow> (case wmic_second_line out of Some l \<Rightarrow> l | None \<Rightarrow> []))
      else [])"

definition fingerprint_source :: "host \<Rightarrow> string" where
  "fingerprint_source h =
     join ''|'' (filter (\<lambda>c. strip c \<noteq> [])
       [node h, machine h, get_cpu_id h, get_mac_address h,
        get_disk_serial h, get_motherboard_serial h])"

definition generate_fingerprint :: "host \<Rightarrow> string" where
  "generate_fingerprint h = take 32 (sha256_hexdigest (fingerprint_source h))"

definition verify_fingerprint :: "host \<Rightarrow> string \<Rightarrow> bool" where
  "verify_fingerprint h stored = (generate_fingerprint h = stored)"

section \<open>The license table and the cached license\<close>

text \<open>
  The table \<open>license\<close> as database/db\_init.py creates it.  Nullable columns are options.
  \<open>enabled_modules\<close> holds the JSON text of a list of module names and is modelled by that
  list; the two date columns hold ISO dates and are modelled by their ordinals.
\<close>

definition license_columns :: "string list" where
  "license_columns =
     [''id'', ''license_key'', ''machine_fingerprint'', ''plan_type'', ''max_users'',
      ''enabled_modules'', ''activation_date'', ''expiry_date'', ''is_active'',
      ''grace_period_days'']"

record license_row =
  row_id :: int
  license_key :: string
  machine_fingerprint :: "string option"
  plan_type :: string
  max_users :: "int option"
  enabled_modules :: "string list option"
  activation_date :: "int option"
  expiry_date :: "int option"
  is_active :: bool
  grace_period_days :: "int option"

definition opt_val :: "('a \<Rightarrow> sqlval) \<Rightarrow> 'a option \<Rightarrow> sqlval" where
  "opt_val f x = (case x of None \<Rightarrow> Null | Some v \<Rightarrow> f v)"

text \<open>\<open>dict(row)\<close>: one key for each column of the table, and no other key.\<close>

definition license_dict :: "license_row \<Rightarrow> (string \<times> sqlval) list" where
  "license_dict l =
     [(''id'', IntV (row_id l)),
      (''license_key'', TextV (license_key l)),
      (''machine_fingerprint'', opt_val TextV (machine_fingerprint l)),
      (''plan_type'', TextV (plan_type l)),
      (''max_users'', opt_val IntV (max_users l)),
      (''enabled_modules'', opt_val JsonV (enabled_modules l)),
      (''activation_date'', opt_val DateV (activation_date l)),
      (''expiry_date'', opt_val DateV (expiry_date l)),
      (''is_active'', BoolV (is_active l)),
      (''grace_period_days'', opt_val IntV (grace_period_days l))]"

text \<open>\<open>self._license.get(key)\<close>.\<close>

definition license_get :: "license_row \<Rightarrow> string \<Rightarrow> sqlval option" where
  "license_get l k = map_of (license_dict l) k"

text \<open>
  \<open>LicenseManager.is_valid\<close>.  \<open>today\<close> is \<open>date.today()\<close>; the argument \<open>lic\<close> is the
  cached \<open>self._license\<close>.
\<close>

definition is_valid :: "host \<Rightarrow> int \<Rightarrow> license_row option \<Rightarrow> error + bool" where
  "is_valid h today lic =
     (case lic of
        None \<Rightarrow> Inr False
      | Some l \<Rightarrow>
          if truthy (license_get l ''is_revoked'') then Inr False
          else if (case machine_fingerprint l of
                     None \<Rightarrow> False
                   | Some fp \<Rightarrow> fp \<noteq> [] \<and> \<not> MachineFingerprint_verify h fp) then Inr False
          else (case expiry_date l of
                  None \<Rightarrow> Inr True
                | Some expiry \<Rightarrow>
                    (case grace_period_days l of
                       None \<Rightarrow> Inl TypeError
                     | Some grace \<Rightarrow>
                         (case date_add_days expiry grace of
                            Inl e \<Rightarrow> Inl e
                          | Inr final_expiry \<Rightarrow>
                              if today > final_expiry then Inr False else Inr True))))"

text \<open>A machine and a license record used in the examples below.\<close>

definition example_host :: host where
  "example_host =
     \<lparr>node = ''shop-pc'', machine = ''x86_64'', processor = ''x86_64'', system = ''Linux'',
      getnode = 1, wmic_cpu = None, wmic_disk = None, wmic_baseboard = None\<rparr>"

definition example_license :: "int \<Rightarrow> int \<Rightarrow> license_row" where
  "example_license D G =
     \<lparr>row_id = 1, license_key = ''PROF-AB12-CD34-EF56'',
      machine_fingerprint = Some (MachineFingerprint_generate example_host),
      plan_type = ''PRO'', max_users = Some 3,
      enabled_modules = Some [''dashboard'', ''billing'', ''inventory'', ''customers'',
                              ''vendors'', ''accounts'', ''reports''],
      activation_date = Some (D - 365), expiry_date = Some D, is_active = True,
      grace_period_days = Some G\<rparr>"

section \<open>License plans\<close>

record plan_config =
  plan_name :: string
  plan_max_users :: int
  plan_modules :: "string list"
  duration_days :: int
  price :: int

definition BASIC :: string where "BASIC = ''BASIC''"
definition PRO :: string where "PRO = ''PRO''"
definition ENTERPRISE :: string where "ENTERPRISE = ''ENTERPRISE''"
definition TRIAL :: string where "TRIAL = ''TRIAL''"

definition trial_config :: plan_config where
  "trial_config =
     \<lparr>plan_name = ''Trial'', plan_max_users = 1,
      plan_modules = [''dashboard'', ''billing'', ''inventory''],
      duration_days = 30, price = 0\<rparr>"

definition basic_config :: plan_config where
  "basic_config =
     \<lparr>plan_name = ''Basic ERP'', plan_max_users = 1,
      plan_modules = [''dashboard'', ''billing'', ''inventory'', ''customers''],
      duration_days = 365, price = 4999\<rparr>"

definition pro_config :: plan_config where
  "pro_config =
     \<lparr>plan_name = ''Pro ERP'', plan_max_users = 3,
      plan_modules = [''dashboard'', ''billing'', ''inventory'', ''customers'', ''vendors'',
                      ''accounts'', ''reports''],
      duration_days = 365, price = 9999\<rparr>"

definition enterprise_config :: plan_config where
  "enterprise_config =
     \<lparr>plan_name = ''Enterprise ERP'', plan_max_users = 999,
      plan_modules = [''dashboard'', ''billing'', ''inventory'', ''customers'', ''vendors'',
                      ''accounts'', ''reports'', ''settings'', ''users''],
      duration_days = 365, price = 24999\<rparr>"

definition PLAN_CONFIG :: "(string \<times> plan_config) list" where
  "PLAN_CONFIG =
     [(TRIAL, trial_config), (BASIC, basic_config), (PRO, pro_config),
      (ENTERPRISE, enterprise_config)]"

section \<open>The license key codec\<close>

text \<open>
  \<open>str.upper()\<close> on the code points below 256.  The result is a list of code points, since
  three of them leave the range of \<open>char\<close> or grow: the sharp s becomes \<open>SS\<close>, the micro
  sign becomes U+039C and y with diaeresis becomes U+0178.
\<close>

definition upper_char :: "char \<Rightarrow> nat list" where
  "upper_char c =
     (let n = (of_char c :: nat)
      in if 97 \<le> n \<and> n \<le> 122 then [n - 32]
         else if n = 181 then [924]
         else if n = 223 then [83, 83]
         else if 224 \<le> n \<and> n \<le> 254 \<and> n \<noteq> 247 then [n - 32]
         else if n = 255 then [376]
         else [n])"

definition upper :: "string \<Rightarrow> nat list" where
  "upper s = concat (map upper_char s)"

definition is_AZ09 :: "nat \<Rightarrow> bool" where
  "is_AZ09 n = ((65 \<le> n \<and> n \<le> 90) \<or> (48 \<le> n \<and> n \<le> 57))"

definition group4 :: "nat list \<Rightarrow> bool" where
  "group4 g = (length g = 4 \<and> list_all is_AZ09 g)"

text \<open>
  \<open>re.match(r'^[A-Z0-9]{4}-[A-Z0-9]{4}-[A-Z0-9]{4}-[A-Z0-9]{4}$', s)\<close>: without the
  \<open>MULTILINE\<close> flag \<open>$\<close> matches at the end of the string and also just before a
  newline that ends the string.
\<close>

definition match_key_pattern :: "nat list \<Rightarrow> bool" where
  "match_key_pattern cs =
     (group4 (take 4 cs) \<and> take 1 (drop 4 cs) = [45]
      \<and> group4 (take 4 (drop 5 cs)) \<and> take 1 (drop 9 cs) = [45]
      \<and> group4 (take 4 (drop 10 cs)) \<and> take 1 (drop 14 cs) = [45]
      \<and> group4 (take 4 (drop 15 cs))
      \<and> (drop 19 cs = [] \<or> drop 19 cs = [10]))"

definition validate_key_format :: "string \<Rightarrow> bool" where
  "validate_key_format key = match_key_pattern (upper key)"

definition plan_codes :: "(nat list \<times> string) list" where
  "plan_codes =
     [(map of_char ''TRIA'', TRIAL), (map of_char ''BASI'', BASIC),
      (map of_char ''PROF'', PRO), (map of_char ''ENTR'', ENTERPRISE)]"

text \<open>
  \<open>_decode_license_key\<close>: \<open>None\<close> is its \<open>return None\<close>; \<open>Some plan\<close> is the dictionary
  \<open>{'plan': plan}\<close>, which has no other key.
\<close>

definition decode_license_key :: "string \<Rightarrow> string option" where
  "decode_license_key key =
     (let k = filter (\<lambda>c. c \<noteq> 45) (upper key)
      in if length k \<noteq> 16 then None
         else Some (case map_of plan_codes (take 4 k) of
                      Some plan \<Rightarrow> plan
                    | None \<Rightarrow> BASIC))"

text \<open>
  The shape of a key in the words of the specification: four groups of four alphanumeric
  characters separated by hyphens, in either case.
\<close>

definition is_alnum :: "char \<Rightarrow> bool" where
  "is_alnum c =
     (let n = (of_char c :: nat)
      in (48 \<le> n \<and> n \<le> 57) \<or> (65 \<le> n \<and> n \<le> 90) \<or> (97 \<le> n \<and> n \<le> 122))"

definition spec_group :: "string \<Rightarrow> bool" where
  "spec_group g = (length g = 4 \<and> list_all is_alnum g)"

definition spec_key_shape :: "string \<Rightarrow> bool" where
  "spec_key_shape key =
     (length key = 19
      \<and> spec_group (take 4 key) \<and> take 1 (drop 4 key) = ''-''
      \<and> spec_group (take 4 (drop 5 key)) \<and> take 1 (drop 9 key) = ''-''
      \<and> spec_group (take 4 (drop 10 key)) \<and> take 1 (drop 14 key) = ''-''
      \<and> spec_group (take 4 (drop 15 key)))"

section \<open>The license manager\<close>

text \<open>
  The state of the singleton: the cached \<open>self._license\<close> and the rows of the table
  \<open>license\<close> as the single database connection sees them, in insertion order.
\<close>

record lm_state =
  cached :: "license_row option"
  license_table :: "license_row list"

text \<open>\<open>SELECT * FROM license WHERE is_active = 1 ORDER BY id DESC LIMIT 1\<close>.\<close>

definition newest_active :: "license_row list \<Rightarrow> license_row option" where
  "newest_active rows =
     foldl (\<lambda>best r.
              if is_active r \<and> (case best of None \<Rightarrow> True | Some b \<Rightarrow> row_id b < row_id r)
              then Some r else best)
           None rows"

text \<open>\<open>_load_license\<close>: the cache is replaced only when a row was found.\<close>

definition load_license :: "lm_state \<Rightarrow> lm_state" where
  "load_license st =
     (case newest_active (license_table st) of
        None \<Rightarrow> st
      | Some r \<Rightarrow> st\<lparr>cached := Some r\<rparr>)"

definition is_activated :: "lm_state \<Rightarrow> bool" where
  "is_activated st = (cached st \<noteq> None)"

definition get_enabled_modules :: "lm_state \<Rightarrow> string list" where
  "get_enabled_modules st =
     (case cached st of
        None \<Rightarrow> []
      | Some l \<Rightarrow> (case enabled_modules l of None \<Rightarrow> [] | Some ms \<Rightarrow> ms))"

text \<open>
  \<open>get_status\<close> builds its dictionary entry by entry: \<open>is_activated\<close>, then \<open>is_valid\<close>,
  then \<open>self.is_expired\<close>.  The class defines neither \<open>is_expired\<close> nor
  \<open>days_remaining\<close>, so the third entry raises \<open>AttributeError\<close>.
\<close>

definition get_status ::
  "host \<Rightarrow> int \<Rightarrow> lm_state \<Rightarrow> error + (string \<times> sqlval) list" where
  "get_status h today st =
     (case is_valid h today (cached st) of
        Inl e \<Rightarrow> Inl e
      | Inr valid \<Rightarrow> Inl (AttributeError ''is_expired''))"

text \<open>
  \<open>UPDATE license SET c1 = v1, ... WHERE cond\<close>.  SQLite refuses the statement when a
  column of the \<open>SET\<close> clause is not in the table.  \<open>is_active\<close> is the only column of the
  table that the program assigns this way.
\<close>

definition apply_assignment :: "license_row \<Rightarrow> string \<times> sqlval \<Rightarrow> license_row" where
  "apply_assignment r a =
     (if fst a = ''is_active'' then r\<lparr>is_active := truthy (Some (snd a))\<rparr> else r)"

definition update_license ::
  "(string \<times> sqlval) list \<Rightarrow> (license_row \<Rightarrow> bool) \<Rightarrow> license_row list
     \<Rightarrow> error + license_row list" where
  "update_license assignments cond rows =
     (case find (\<lambda>a. fst a \<notin> set license_columns) assignments of
        Some a \<Rightarrow> Inl (OperationalError (''no such column: '' @ fst a))
      | None \<Rightarrow> Inr (map (\<lambda>r. if cond r then foldl apply_assignment r assignments else r) rows))"

text \<open>\<open>INSERT INTO license\<close>: \<open>id\<close> is \<open>AUTOINCREMENT\<close> and \<open>license_key\<close> is \<open>UNIQUE\<close>.\<close>

definition next_id :: "license_row list \<Rightarrow> int" where
  "next_id rows = foldr max (map row_id rows) 0 + 1"

definition insert_license :: "license_row \<Rightarrow> license_row list \<Rightarrow> error + license_row list" where
  "insert_license r rows =
     (if license_key r \<in> set (map license_key rows)
      then Inl (IntegrityError ''UNIQUE constraint failed: license.license_key'')
      else Inr (rows @ [r\<lparr>row_id := next_id rows\<rparr>]))"

text \<open>
  \<open>activate\<close> up to and including \<open>db.commit()\<close>.  The second component is the table as
  the connection sees it afterwards: a failed \<open>INSERT\<close> leaves the preceding \<open>UPDATE\<close>
  in place.  The decoded dictionary only has the key \<open>plan\<close>, so \<open>expiry\<close>, \<open>modules\<close>
  and \<open>max_users\<close> always come from the plan.
\<close>

definition activate_store ::
  "host \<Rightarrow> int \<Rightarrow> license_row list \<Rightarrow> string \<Rightarrow> (error + unit) \<times> license_row list" where
  "activate_store h today rows key =
     (if \<not> validate_key_format key then (Inl (LicenseError ''Invalid license key format''), rows)
      else (case decode_license_key key of
        None \<Rightarrow> (Inl (LicenseError ''Invalid or corrupted license key''), rows)
      | Some plan \<Rightarrow>
          if (case find (\<lambda>r. license_key r = key) rows of
                None \<Rightarrow> False
              | Some existing \<Rightarrow>
                  (case machine_fingerprint existing of
                     None \<Rightarrow> False
                   | Some fp \<Rightarrow> fp \<noteq> [] \<and> fp \<noteq> MachineFingerprint_generate h))
          then (Inl (LicenseError ''License already activated on another machine''), rows)
          else
            (let cfg = (case map_of PLAN_CONFIG plan of Some c \<Rightarrow> c | None \<Rightarrow> basic_config)
             in (case date_add_days today (duration_days cfg) of
                 Inl e \<Rightarrow> (Inl e, rows)
               | Inr expiry \<Rightarrow>
                   (case update_license [(''is_active'', IntV 0)] (\<lambda>r. True) rows of
                      Inl e \<Rightarrow> (Inl e, rows)
                    | Inr rows1 \<Rightarrow>
                        (case insert_license
                                \<lparr>row_id = 0, license_key = key,
                                 machine_fingerprint = Some (MachineFingerprint_generate h),
                                 plan_type = plan, max_users = Some (plan_max_users cfg),
                                 enabled_modules = Some (plan_modules cfg),
                                 activation_date = Some today, expiry_date = Some expiry,
                                 is_active = True, grace_period_days = Some 7\<rparr> rows1 of
                           Inl e \<Rightarrow> (Inl e, rows1)
                         | Inr rows2 \<Rightarrow> (Inr (), rows2)))))))"

text \<open>\<open>activate\<close>: the stored part, then \<open>_load_license\<close> and \<open>get_status\<close>.\<close>

definition activate ::
  "host \<Rightarrow> int \<Rightarrow> lm_state \<Rightarrow> string \<Rightarrow> (error + (string \<times> sqlval) list) \<times> lm_state" where
  "activate h today st key =
     (case activate_store h today (license_table st) key of
        (Inl e, rows) \<Rightarrow> (Inl e, st\<lparr>license_table := rows\<rparr>)
      | (Inr u, rows) \<Rightarrow>
          (let st' = load_license (st\<lparr>license_table := rows\<rparr>)
           in (get_status h today st', st')))"

text \<open>A sequence of \<open>activate\<close> calls, each on its own day, and the calls that reach the commit.\<close>

fun activations :: "host \<Rightarrow> lm_state \<Rightarrow> (int \<times> string) list \<Rightarrow> lm_state" where
  "activations h st [] = st"
| "activations h st (c # cs) = activations h (snd (activate h (fst c) st (snd c))) cs"

fun all_commit :: "host \<Rightarrow> lm_state \<Rightarrow> (int \<times> string) list \<Rightarrow> bool" where
  "all_commit h st [] = True"
| "all_commit h st (c # cs) =
     (fst (activate_store h (fst c) (license_table st) (snd c)) = Inr ()
      \<and> all_commit h (snd (activate h (fst c) st (snd c))) cs)"

section \<open>Remote revocation\<close>

text \<open>
  What \<open>requests.get\<close> and \<open>response.json()\<close> can give: an exception of the request, or a
  status code with a body that is not usable JSON (\<open>json()\<close> or \<open>data.get\<close> raises) or
  that is an object whose two lists may be absent.
\<close>

datatype feed_body =
    Malformed
  | JsonObject "string list option" "string list option"

datatype feed_response =
    RequestFailed
  | Response nat feed_body

definition revoke_license :: "lm_state \<Rightarrow> error + lm_state" where
  "revoke_license st =
     (case cached st of
        None \<Rightarrow> Inl TypeError
      | Some l \<Rightarrow>
          (case update_license [(''is_active'', IntV 0), (''is_revoked'', IntV 1)]
                  (\<lambda>r. row_id r = row_id l) (license_table st) of
             Inl e \<Rightarrow> Inl e
           | Inr rows \<Rightarrow> Inr (st\<lparr>cached := None, license_table := rows\<rparr>)))"

definition listed :: "string option \<Rightarrow> string list option \<Rightarrow> bool" where
  "listed x xs = (case x of None \<Rightarrow> False | Some v \<Rightarrow> v \<in> set (case xs of None \<Rightarrow> [] | Some l \<Rightarrow> l))"

definition check_remote_revocation ::
  "lm_state \<Rightarrow> string option \<Rightarrow> feed_response \<Rightarrow> bool \<times> lm_state" where
  "check_remote_revocation st revocation_url resp =
     (case cached st of
        None \<Rightarrow> (False, st)
      | Some l \<Rightarrow>
          if revocation_url = None \<or> revocation_url = Some [] then (False, st)
          else (case resp of
                  RequestFailed \<Rightarrow> (False, st)
                | Response code body \<Rightarrow>
                    if code \<noteq> 200 then (False, st)
                    else (case body of
                            Malformed \<Rightarrow> (False, st)
                          | JsonObject revoked_keys revoked_machines \<Rightarrow>
                              if listed (Some (license_key l)) revoked_keys
                                 \<or> listed (machine_fingerprint l) revoked_machines
                              then (case revoke_license st of
                                      Inl e \<Rightarrow> (False, st)
                                    | Inr st' \<Rightarrow> (True, st'))
                              else (False, st))))"

text \<open>A manager whose only record is the example license, active and cached.\<close>

definition example_state :: lm_state where
  "example_state =
     \<lparr>cached = Some (example_license 738097 7),
      license_table = [example_license 738097 7]\<rparr>"

definition fresh_state :: lm_state where
  "fresh_state = \<lparr>cached = None, license_table = []\<rparr>"

section \<open>Authentication\<close>

text \<open>
  The columns of \<open>users\<close> that \<open>login\<close> reads or writes, the table \<open>roles\<close> as pairs of
  \<open>id\<close> and \<open>name\<close>, and the entries that \<open>AuditLog.log\<close> appends.  Times are numbers.
\<close>

record user_row =
  user_id :: int
  username :: string
  password_hash :: string
  user_role_id :: int
  user_is_active :: "bool option"
  last_login :: "int option"

record audit_entry =
  audit_user_id :: "int option"
  audit_action :: string
  audit_module :: string
  audit_new_values :: "(string \<times> string) list option"

record session =
  session_user :: "(user_row \<times> string) option"
  session_role_id :: "int option"
  session_role_name :: "string option"
  login_time :: "int option"

record auth_state =
  users :: "user_row list"
  roles :: "(int \<times> string) list"
  audit_logs :: "audit_entry list"
  current_session :: session

text \<open>
  \<open>User.get_by_username\<close>: the row of \<open>users JOIN roles\<close> with this user name, as the row
  and its \<open>role_name\<close>.
\<close>

definition get_by_username ::
  "user_row list \<Rightarrow> (int \<times> string) list \<Rightarrow> string \<Rightarrow> (user_row \<times> string) option" where
  "get_by_username us rs name =
     (case find (\<lambda>u. username u = name \<and> map_of rs (user_role_id u) \<noteq> None) us of
        None \<Rightarrow> None
      | Some u \<Rightarrow> (case map_of rs (user_role_id u) of
                     None \<Rightarrow> None
                   | Some role \<Rightarrow> Some (u, role)))"

definition audit_log ::
  "int option \<Rightarrow> string \<Rightarrow> string \<Rightarrow> (string \<times> string) list option \<Rightarrow> auth_state
     \<Rightarrow> auth_state" where
  "audit_log uid action module new_values st =
     st\<lparr>audit_logs := audit_logs st @
          [\<lparr>audit_user_id = uid, audit_action = action, audit_module = module,
            audit_new_values = new_values\<rparr>]\<rparr>"

definition update_last_login :: "int \<Rightarrow> int \<Rightarrow> auth_state \<Rightarrow> auth_state" where
  "update_last_login uid now st =
     st\<lparr>users := map (\<lambda>u. if user_id u = uid then u\<lparr>last_login := Some now\<rparr> else u) (users st)\<rparr>"

text \<open>
  \<open>login\<close>.  \<open>checkpw\<close> stands for \<open>bcrypt.checkpw\<close> on the encoded password and hash,
  which answers true or false or raises on a hash it cannot read; \<open>now\<close> is the clock.
\<close>

definition login ::
  "(string \<Rightarrow> string \<Rightarrow> error + bool) \<Rightarrow> int \<Rightarrow> auth_state \<Rightarrow> string \<Rightarrow> string
     \<Rightarrow> (error + (user_row \<times> string)) \<times> auth_state" where
  "login checkpw now st name password =
     (case get_by_username (users st) (roles st) name of
        None \<Rightarrow>
          (Inl (AuthenticationError ''Invalid username or password''),
           audit_log None ''LOGIN_FAILED'' ''auth''
             (Some [(''username'', name), (''reason'', ''user_not_found'')]) st)
      | Some user \<Rightarrow>
          if user_is_active (fst user) \<noteq> Some True then
            (Inl (AuthenticationError ''Account is disabled. Contact administrator.''),
             audit_log (Some (user_id (fst user))) ''LOGIN_FAILED'' ''auth''
               (Some [(''reason'', ''account_disabled'')]) st)
          else (case checkpw password (password_hash (fst user)) of
                  Inl e \<Rightarrow> (Inl e, st)
                | Inr False \<Rightarrow>
                    (Inl (AuthenticationError ''Invalid username or password''),
                     audit_log (Some (user_id (fst user))) ''LOGIN_FAILED'' ''auth''
                       (Some [(''reason'', ''invalid_password'')]) st)
                | Inr True \<Rightarrow>
                    (Inr user,
                     audit_log (Some (user_id (fst user))) ''LOGIN_SUCCESS'' ''auth'' None
                       (update_last_login (user_id (fst user)) now
                          (st\<lparr>current_session :=
                                \<lparr>session_user = Some user,
                                 session_role_id = Some (user_role_id (fst user)),
                                 session_role_name = Some (snd user),
                                 login_time = Some now\<rparr>\<rparr>)))))"

section \<open>Permissions\<close>

definition permission_columns :: "string list" where
  "permission_columns =
     [''id'', ''role_id'', ''module'', ''can_view'', ''can_create'', ''can_edit'',
      ''can_delete'', ''can_export'']"

definition ACTIONS :: "string list" where
  "ACTIONS = [''can_view'', ''can_create'', ''can_edit'', ''can_delete'', ''can_export'']"

record permission_row =
  perm_id :: int
  perm_role_id :: int
  perm_module :: string
  can_view :: "bool option"
  can_create :: "bool option"
  can_edit :: "bool option"
  can_delete :: "bool option"
  can_export :: "bool option"

definition permission_dict :: "permission_row \<Rightarrow> (string \<times> sqlval) list" where
  "permission_dict r =
     [(''id'', IntV (perm_id r)),
      (''role_id'', IntV (perm_role_id r)),
      (''module'', TextV (perm_module r)),
      (''can_view'', opt_val BoolV (can_view r)),
      (''can_create'', opt_val BoolV (can_create r)),
      (''can_edit'', opt_val BoolV (can_edit r)),
      (''can_delete'', opt_val BoolV (can_delete r)),
      (''can_export'', opt_val BoolV (can_export r))]"

text \<open>
  \<open>Permission.check_permission\<close> pastes the text of \<open>action\<close> into
  \<open>SELECT {action} FROM permissions WHERE role_id = ? AND module = ?\<close> and answers
  \<open>bool(row[0]) if row else False\<close>.  SQLite resolves a name without regard to ASCII
  case, to a column of the table or to the row id (\<open>rowid\<close>, \<open>oid\<close>, \<open>_rowid_\<close>,
  which is the column \<open>id\<close>), and refuses a name it cannot resolve before it looks at
  a row.  What SQLite answers for any other text (an expression, an aggregate, text that
  does not parse) is the parameter \<open>engine\<close>: the first column of the first row of its
  answer on the matching rows, or no row, or the error it raises.
\<close>

definition lower_cp :: "string \<Rightarrow> nat list" where
  "lower_cp s =
     map (\<lambda>c. let n = (of_char c :: nat) in if 65 \<le> n \<and> n \<le> 90 then n + 32 else n) s"

definition column_named :: "string list \<Rightarrow> string \<Rightarrow> string option" where
  "column_named cols text = find (\<lambda>c. map of_char c = lower_cp text) cols"

definition rowid_aliases :: "string list" where
  "rowid_aliases = [''rowid'', ''oid'', ''_rowid_'']"

definition name_char :: "char \<Rightarrow> bool" where
  "name_char c =
     (let n = (of_char c :: nat)
      in (97 \<le> n \<and> n \<le> 122) \<or> (48 \<le> n \<and> n \<le> 57) \<or> n = 95)"

text \<open>A name that begins with \<open>can_\<close>: no keyword of SQLite has this form.\<close>

definition is_flag_name :: "string \<Rightarrow> bool" where
  "is_flag_name text = (take 4 text = ''can_'' \<and> list_all name_char (drop 4 text))"

definition Permission_check_permission ::
  "(string \<Rightarrow> permission_row list \<Rightarrow> error + sqlval option)
     \<Rightarrow> permission_row list \<Rightarrow> int option \<Rightarrow> string \<Rightarrow> string \<Rightarrow> error + bool" where
  "Permission_check_permission engine rows role module action =
     (let matching = filter (\<lambda>r. Some (perm_role_id r) = role \<and> perm_module r = module) rows
      in (case column_named permission_columns action of
            Some c \<Rightarrow>
              (case matching of
                 [] \<Rightarrow> Inr False
               | r # rest \<Rightarrow> Inr (truthy (map_of (permission_dict r) c)))
          | None \<Rightarrow>
              (case column_named rowid_aliases action of
                 Some c \<Rightarrow>
                   (case matching of
                      [] \<Rightarrow> Inr False
                    | r # rest \<Rightarrow> Inr (truthy (Some (IntV (perm_id r)))))
               | None \<Rightarrow>
                   if is_flag_name action
                   then Inl (OperationalError (''no such column: '' @ action))
                   else (case engine action matching of
                           Inl e \<Rightarrow> Inl e
                         | Inr None \<Rightarrow> Inr False
                         | Inr (Some v) \<Rightarrow> Inr (truthy (Some v))))))"

text \<open>\<open>check_permission\<close> of core/permissions.py.\<close>

definition check_permission ::
  "(string \<Rightarrow> permission_row list \<Rightarrow> error + sqlval option)
     \<Rightarrow> session \<Rightarrow> permission_row list \<Rightarrow> string \<Rightarrow> string \<Rightarrow> error + bool" where
  "check_permission engine sess rows module action =
     (if session_user sess = None then Inr False
      else if session_role_name sess = Some ''Admin'' then Inr True
      else Permission_check_permission engine rows (session_role_id sess) module action)"

text \<open>An engine for the examples, none of which reaches it: it refuses every text.\<close>

definition refusing_engine :: "string \<Rightarrow> permission_row list \<Rightarrow> error + sqlval option" where
  "refusing_engine text rows = Inl (OperationalError ''syntax error'')"

text \<open>Users, sessions and a password check used in the examples.\<close>

definition example_user :: "bool option \<Rightarrow> user_row" where
  "example_user active =
     \<lparr>user_id = 2, username = ''asha'', password_hash = ''hash-of-secret'',
      user_role_id = 3, user_is_active = active, last_login = None\<rparr>"

definition example_auth :: "bool option \<Rightarrow> auth_state" where
  "example_auth active =
     \<lparr>users = [example_user active], roles = [(1, ''Admin''), (3, ''Sales'')], audit_logs = [],
      current_session = \<lparr>session_user = None, session_role_id = None,
                         session_role_name = None, login_time = None\<rparr>\<rparr>"

definition example_checkpw :: "string \<Rightarrow> string \<Rightarrow> error + bool" where
  "example_checkpw password hash = Inr (''hash-of-'' @ password = hash)"

definition example_session :: "int \<Rightarrow> string \<Rightarrow> session" where
  "example_session rid rname =
     \<lparr>session_user = Some (example_user (Some True), rname), session_role_id = Some rid,
      session_role_name = Some rname, login_time = Some 0\<rparr>"

definition example_permission :: permission_row where
  "example_permission =
     \<lparr>perm_id = 1, perm_role_id = 3, perm_module = ''billing'', can_view = Some True,
      can_create = Some True, can_edit = Some False, can_delete = Some False,
      can_export = Some True\<rparr>"

text \<open>A table whose only record holds the example key, bound to another machine.\<close>

definition other_machine_table :: "license_row list" where
  "other_machine_table = [(example_license 738097 7)\<lparr>machine_fingerprint := Some ''0f0f''\<rparr>]"

text \<open>ASCII strings, and \<open>str.upper()\<close> on one ASCII character.\<close>

definition is_ascii :: "string \<Rightarrow> bool" where
  "is_ascii s = list_all (\<lambda>c. (of_char c :: nat) < 128) s"

definition upper_ascii_char :: "char \<Rightarrow> nat" where
  "upper_ascii_char c =
     (let n = (of_char c :: nat) in if 97 \<le> n \<and> n \<le> 122 then n - 32 else n)"


text \<open>A key whose first group is the sharp s (code point 223) followed by \<open>AB\<close>.\<close>

definition sharp_s_key :: string where
  "sharp_s_key = CHR 0xDF # ''AB-ABCD-ABCD-ABCD''"

definition is_hex_digit :: "char \<Rightarrow> bool" where
  "is_hex_digit c = (c \<in> set ''0123456789abcdef'')"

definition example_feed :: feed_response where
  "example_feed = Response 200 (JsonObject (Some [''PROF-AB12-CD34-EF56'']) (Some []))"

definition example_url :: "string option" where
  "example_url = Some ''https://example.com/api/revoked_licenses.json''"

section \<open>Shape of a fingerprint\<close>

lemma length_round256: "length (round256 s kw) = length s"
  by (induction s kw rule: round256.induct) (simp_all add: Let_def)

lemma length_foldl_round256: "length (foldl round256 s kws) = length s"
  by (induction kws arbitrary: s) (simp_all add: length_round256)

lemma length_compress: "length (compress hs blk) = length hs"
  by (simp add: compress_def length_foldl_round256)

lemma length_foldl_compress: "length (foldl compress hs bs) = length hs"
  by (induction bs arbitrary: hs) (simp_all add: length_compress)

lemma length_concat_word_bytes: "length (concat (map word_bytes ws)) = 4 * length ws"
  by (induction ws) (simp_all add: word_bytes_def)

lemma length_sha256: "length (sha256 m) = 32"
  by (simp add: sha256_def length_concat_word_bytes length_foldl_compress H256_def)

lemma length_hexdigest: "length (hexdigest bs) = 2 * length bs"
  by (induction bs) (simp_all add: hexdigest_def)

lemma length_sha256_hexdigest: "length (sha256_hexdigest s) = 64"
  by (simp add: sha256_hexdigest_def length_hexdigest length_sha256)

lemma length_MachineFingerprint_generate: "length (MachineFingerprint_generate h) = 32"
  by (simp add: MachineFingerprint_generate_def length_sha256_hexdigest)

lemma length_generate_fingerprint: "length (generate_fingerprint h) = 32"
  by (simp add: generate_fingerprint_def length_sha256_hexdigest)

lemma hex_digit_is_hex: "is_hex_digit (hex_digit n)"
proof -
  have "n mod 16 < length ''0123456789abcdef''" by simp
  then have "''0123456789abcdef'' ! (n mod 16) \<in> set ''0123456789abcdef''"
    by (rule nth_mem)
  then show ?thesis by (simp only: is_hex_digit_def hex_digit_def)
qed

lemma hexdigest_is_hex: "list_all is_hex_digit (hexdigest bs)"
  by (induction bs) (simp_all add: hexdigest_def hex_digit_is_hex)

lemma take_is_hex: "list_all is_hex_digit xs \<Longrightarrow> list_all is_hex_digit (take n xs)"
  by (auto simp add: list_all_iff dest: in_set_takeD)

text \<open>
  C8.  On one and the same host, \<open>verify(generate())\<close> is true for both fingerprint
  implementations: the fingerprint is a function of the host attributes, it has exactly 32
  characters (so at most 32), all of them lower-case hexadecimal digits, and \<open>verify\<close> is
  plain equality of the recomputed and the stored string.
\<close>

theorem verify_generate:
  "MachineFingerprint_verify h (MachineFingerprint_generate h)
   \<and> length (MachineFingerprint_generate h) = 32
   \<and> list_all is_hex_digit (MachineFingerprint_generate h)
   \<and> MachineFingerprint_verify h stored = (MachineFingerprint_generate h = stored)
   \<and> verify_fingerprint h (generate_fingerprint h)
   \<and> length (generate_fingerprint h) = 32
   \<and> list_all is_hex_digit (generate_fingerprint h)
   \<and> verify_fingerprint h stored = (generate_fingerprint h = stored)"
  by (simp add: MachineFingerprint_verify_def verify_fingerprint_def
      length_MachineFingerprint_generate length_generate_fingerprint)
     (simp add: MachineFingerprint_generate_def generate_fingerprint_def sha256_hexdigest_def
      take_is_hex hexdigest_is_hex)

section \<open>Validity of the cached license\<close>

lemma license_get_is_revoked: "license_get l ''is_revoked'' = None"
  by (simp add: license_get_def license_dict_def)

text \<open>
  C1 (as amended).  For a license record whose bound fingerprint is the one of the current
  machine, with expiry date \<open>D\<close> and a non-negative grace period \<open>G\<close> such that \<open>D + G\<close> is
  still a date (not after 9999-12-31), \<open>is_valid\<close> returns true for every
  \<open>today \<le> D + G\<close> and false for every \<open>today > D + G\<close>.  The table has no column
  \<open>is_revoked\<close>, so the revocation test of \<open>is_valid\<close> never fires.
\<close>

theorem is_valid_grace_window:
  assumes "machine_fingerprint l = Some fp"
    and "MachineFingerprint_verify h fp"
    and "expiry_date l = Some D"
    and "grace_period_days l = Some G"
    and "date_min \<le> D" and "0 \<le> G" and "D + G \<le> date_max"
  shows "is_valid h today (Some l) = Inr (today \<le> D + G)"
proof -
  have "date_add_days D G = Inr (D + G)"
    using assms(5-7)
    by (simp add: date_add_days_def date_min_def date_max_def timedelta_max_days_def)
  then show ?thesis
    using assms(1-4) by (auto simp add: is_valid_def license_get_is_revoked)
qed

theorem is_valid_grace_window_witness:
  "is_valid example_host 738100 (Some (example_license 738097 7)) = Inr True
   \<and> is_valid example_host 738105 (Some (example_license 738097 7)) = Inr False"
  using is_valid_grace_window [of "example_license 738097 7"
          "MachineFingerprint_generate example_host" example_host 738097 7 738100]
        is_valid_grace_window [of "example_license 738097 7"
          "MachineFingerprint_generate example_host" example_host 738097 7 738105]
  by (simp add: example_license_def MachineFingerprint_verify_def date_min_def date_max_def)

text \<open>
  C1 as stated fails when \<open>D + G\<close> lies after \<open>date.max\<close>: with \<open>D\<close> = 9999-12-31 and
  \<open>G = 7\<close> every \<open>today\<close> satisfies \<open>today \<le> D + G\<close>, yet \<open>expiry + timedelta(days=grace)\<close>
  raises \<open>OverflowError\<close> and \<open>is_valid\<close> returns nothing.
\<close>

theorem is_valid_overflow_counterexample:
  "(738100::int) \<le> 3652059 + 7
   \<and> is_valid example_host 738100 (Some (example_license 3652059 7)) = Inl OverflowError"
  by (simp add: is_valid_def license_get_is_revoked example_license_def
      MachineFingerprint_verify_def date_add_days_def date_min_def date_max_def
      timedelta_max_days_def)

section \<open>Activation\<close>

lemma update_deactivate_all:
  "update_license [(''is_active'', IntV 0)] (\<lambda>r. True) rows
     = Inr (map (\<lambda>r. r\<lparr>is_active := False\<rparr>) rows)"
  by (simp add: update_license_def license_columns_def apply_assignment_def)

lemma activate_store_commit:
  assumes "fst (activate_store h today rows key) = Inr ()"
  shows "\<exists>r. snd (activate_store h today rows key)
                = map (\<lambda>r. r\<lparr>is_active := False\<rparr>) rows @ [r] \<and> is_active r"
  using assms
  by (auto simp add: activate_store_def update_deactivate_all insert_license_def Let_def
      split: if_splits option.splits sum.splits)

lemma activate_table:
  "license_table (snd (activate h today st key))
     = snd (activate_store h today (license_table st) key)"
  by (auto simp add: activate_def load_license_def Let_def
      split: prod.splits sum.splits option.splits)

lemma filter_deactivated:
  "filter is_active (map (\<lambda>r. r\<lparr>is_active := False\<rparr>) rows) = []"
  by (induction rows) simp_all

lemma commit_single_active:
  assumes "fst (activate_store h today (license_table st) key) = Inr ()"
  shows "length (filter is_active (license_table (snd (activate h today st key)))) = 1"
proof -
  obtain r where "snd (activate_store h today (license_table st) key)
                    = map (\<lambda>r. r\<lparr>is_active := False\<rparr>) (license_table st) @ [r]"
    and "is_active r"
    using activate_store_commit [OF assms] by blast
  then show ?thesis
    by (simp add: activate_table filter_deactivated)
qed

text \<open>
  C2.  After every non-empty sequence of \<open>activate\<close> calls each of which passes its checks
  and commits its record, exactly one license record has \<open>is_active\<close> set: the call
  clears the flag of every record and then inserts the new record with the flag set.
\<close>

theorem activations_single_active:
  assumes "cs \<noteq> []" and "all_commit h st cs"
  shows "length (filter is_active (license_table (activations h st cs))) = 1"
  using assms
proof (induction cs arbitrary: st)
  case Nil
  then show ?case by simp
next
  case (Cons c cs)
  show ?case
  proof (cases "cs = []")
    case True
    then show ?thesis
      using Cons.prems(2) commit_single_active [of h "fst c" st "snd c"] by simp
  next
    case False
    then show ?thesis
      using Cons.IH [of "snd (activate h (fst c) st (snd c))"] Cons.prems(2) by simp
  qed
qed

lemma validate_PROF_key: "validate_key_format ''PROF-AB12-CD34-EF56''"
  by (simp add: validate_key_format_def match_key_pattern_def group4_def is_AZ09_def
      upper_def upper_char_def)

lemma decode_PROF_key: "decode_license_key ''PROF-AB12-CD34-EF56'' = Some ''PRO''"
  by (simp add: decode_license_key_def upper_def upper_char_def plan_codes_def
      TRIAL_def BASIC_def PRO_def ENTERPRISE_def)

lemma validate_BASI_key: "validate_key_format ''BASI-0000-0000-0001''"
  by (simp add: validate_key_format_def match_key_pattern_def group4_def is_AZ09_def
      upper_def upper_char_def)

lemma decode_BASI_key: "decode_license_key ''BASI-0000-0000-0001'' = Some ''BASIC''"
  by (simp add: decode_license_key_def upper_def upper_char_def plan_codes_def
      TRIAL_def BASIC_def PRO_def ENTERPRISE_def)

lemma find_key_absent:
  "key \<notin> set (map license_key rows) \<Longrightarrow> find (\<lambda>r. license_key r = key) rows = None"
  by (induction rows) auto

lemma keys_deactivated:
  "map license_key (map (\<lambda>r. r\<lparr>is_active := False\<rparr>) rows) = map license_key rows"
  by (induction rows) simp_all

text \<open>What a call stores when the key is well formed and not yet in the table.\<close>

lemma activate_store_fresh:
  assumes "validate_key_format key"
    and "decode_license_key key = Some plan"
    and "key \<notin> set (map license_key rows)"
    and "cfg = (case map_of PLAN_CONFIG plan of Some c \<Rightarrow> c | None \<Rightarrow> basic_config)"
    and "date_add_days today (duration_days cfg) = Inr expiry"
  shows "activate_store h today rows key =
           (Inr (),
            map (\<lambda>r. r\<lparr>is_active := False\<rparr>) rows @
            [\<lparr>row_id = next_id (map (\<lambda>r. r\<lparr>is_active := False\<rparr>) rows), license_key = key,
              machine_fingerprint = Some (MachineFingerprint_generate h),
              plan_type = plan, max_users = Some (plan_max_users cfg),
              enabled_modules = Some (plan_modules cfg),
              activation_date = Some today, expiry_date = Some expiry,
              is_active = True, grace_period_days = Some 7\<rparr>])"
  using assms
  by (simp add: activate_store_def find_key_absent update_deactivate_all insert_license_def
      keys_deactivated Let_def)



lemma PRO_plan_config:
  "(case map_of PLAN_CONFIG ''PRO'' of Some c \<Rightarrow> c | None \<Rightarrow> basic_config) = pro_config"
  by (simp add: PLAN_CONFIG_def TRIAL_def BASIC_def PRO_def ENTERPRISE_def)

lemma BASIC_plan_config:
  "(case map_of PLAN_CONFIG ''BASIC'' of Some c \<Rightarrow> c | None \<Rightarrow> basic_config) = basic_config"
  by (simp add: PLAN_CONFIG_def TRIAL_def BASIC_def PRO_def ENTERPRISE_def)

lemma date_add_365:
  "date_min \<le> today \<Longrightarrow> today + 365 \<le> date_max \<Longrightarrow> date_add_days today 365 = Inr (today + 365)"
  by (simp add: date_add_days_def date_min_def date_max_def timedelta_max_days_def)

theorem activations_single_active_witness:
  "all_commit example_host fresh_state
     [(738000, ''PROF-AB12-CD34-EF56''), (738400, ''BASI-0000-0000-0001'')]
   \<and> length (filter is_active (license_table (activations example_host fresh_state
        [(738000, ''PROF-AB12-CD34-EF56''), (738400, ''BASI-0000-0000-0001'')]))) = 1"
proof -
  have d1: "date_add_days 738000 365 = Inr 738365"
    using date_add_365 [of 738000] by (simp add: date_min_def date_max_def)
  have d2: "date_add_days 738400 365 = Inr 738765"
    using date_add_365 [of 738400] by (simp add: date_min_def date_max_def)
  have s1: "activate_store example_host 738000 [] ''PROF-AB12-CD34-EF56'' =
      (Inr (), [\<lparr>row_id = 1, license_key = ''PROF-AB12-CD34-EF56'',
              machine_fingerprint = Some (MachineFingerprint_generate example_host),
              plan_type = ''PRO'', max_users = Some 3,
              enabled_modules = Some (plan_modules pro_config),
              activation_date = Some 738000, expiry_date = Some 738365,
              is_active = True, grace_period_days = Some 7\<rparr>])"
    using activate_store_fresh [OF validate_PROF_key decode_PROF_key _ refl, of "[]" 738000 738365
            example_host] d1
    by (simp add: PRO_plan_config pro_config_def next_id_def)
  have c1: "all_commit example_host fresh_state
     [(738000, ''PROF-AB12-CD34-EF56''), (738400, ''BASI-0000-0000-0001'')]"
    using activate_store_fresh [OF validate_BASI_key decode_BASI_key _ refl,
            of "snd (activate_store example_host 738000 [] ''PROF-AB12-CD34-EF56'')" 738400 738765
            example_host] d2
    by (simp add: fresh_state_def s1 activate_table BASIC_plan_config basic_config_def)
  show ?thesis
    using activations_single_active [OF _ c1] c1 by simp
qed

text \<open>
  A call with a key that is, character for character, the key of a record bound to
  another machine raises a \<open>LicenseError\<close> and leaves the manager and the table as they
  were; for a key that passes the format check and the decoder the message is the one
  of the other-machine test.
\<close>

lemma activate_identical_key_other_machine:
  assumes "find (\<lambda>r. license_key r = key) (license_table st) = Some existing"
    and "machine_fingerprint existing = Some fp"
    and "fp \<noteq> []"
    and "fp \<noteq> MachineFingerprint_generate h"
  shows "(\<exists>msg. fst (activate h today st key) = Inl (LicenseError msg))
         \<and> snd (activate h today st key) = st
         \<and> (validate_key_format key \<and> decode_license_key key \<noteq> None \<longrightarrow>
              fst (activate h today st key)
                = Inl (LicenseError ''License already activated on another machine''))"
  using assms
  by (auto simp add: activate_def activate_store_def split: option.splits)

lemma other_machine_fingerprint: "''0f0f'' \<noteq> MachineFingerprint_generate example_host"
proof
  assume "''0f0f'' = MachineFingerprint_generate example_host"
  then have "length ''0f0f'' = length (MachineFingerprint_generate example_host)"
    by (rule arg_cong)
  then show False
    by (simp add: length_MachineFingerprint_generate)
qed

lemma activate_identical_key_example:
  "activate example_host 738000 \<lparr>cached = None, license_table = other_machine_table\<rparr>
     ''PROF-AB12-CD34-EF56''
   = (Inl (LicenseError ''License already activated on another machine''),
      \<lparr>cached = None, license_table = other_machine_table\<rparr>)"
  using activate_identical_key_other_machine [of "''PROF-AB12-CD34-EF56''"
          "\<lparr>cached = None, license_table = other_machine_table\<rparr>"
          "(example_license 738097 7)\<lparr>machine_fingerprint := Some ''0f0f''\<rparr>"
          "''0f0f''" example_host 738000]
        other_machine_fingerprint validate_PROF_key decode_PROF_key
  by (simp add: other_machine_table_def example_license_def prod_eq_iff)

lemma validate_lower_PROF_key: "validate_key_format ''prof-ab12-cd34-ef56''"
  by (simp add: validate_key_format_def match_key_pattern_def group4_def is_AZ09_def
      upper_def upper_char_def)

lemma decode_lower_PROF_key: "decode_license_key ''prof-ab12-cd34-ef56'' = Some ''PRO''"
  by (simp add: decode_license_key_def upper_def upper_char_def plan_codes_def
      TRIAL_def BASIC_def PRO_def ENTERPRISE_def)

text \<open>
  C5 at a failing input.  The table holds the key \<open>PROF-AB12-CD34-EF56\<close>, bound to the
  fingerprint of another machine.  The same key typed in lower case has the same upper
  case form, which is what the format check and the decoder read; the look-up of the
  prior record and the stored record use the text as typed, so no prior record is found,
  the call reaches the commit and the table holds the key twice, once for each machine.
\<close>

theorem lower_case_key_on_second_machine:
  "upper ''prof-ab12-cd34-ef56'' = upper ''PROF-AB12-CD34-EF56''
   \<and> map license_key other_machine_table = [''PROF-AB12-CD34-EF56'']
   \<and> map machine_fingerprint other_machine_table = [Some ''0f0f'']
   \<and> ''0f0f'' \<noteq> MachineFingerprint_generate example_host
   \<and> fst (activate_store example_host 738000 other_machine_table ''prof-ab12-cd34-ef56'')
       = Inr ()
   \<and> map license_key
        (snd (activate_store example_host 738000 other_machine_table ''prof-ab12-cd34-ef56''))
       = [''PROF-AB12-CD34-EF56'', ''prof-ab12-cd34-ef56'']
   \<and> map machine_fingerprint
        (snd (activate_store example_host 738000 other_machine_table ''prof-ab12-cd34-ef56''))
       = [Some ''0f0f'', Some (MachineFingerprint_generate example_host)]"
proof -
  have d: "date_add_days 738000 365 = Inr 738365"
    using date_add_365 [of 738000] by (simp add: date_min_def date_max_def)
  have u: "upper ''prof-ab12-cd34-ef56'' = upper ''PROF-AB12-CD34-EF56''"
    by (simp add: upper_def upper_char_def)
  have s: "activate_store example_host 738000 other_machine_table ''prof-ab12-cd34-ef56'' =
      (Inr (),
       map (\<lambda>r. r\<lparr>is_active := False\<rparr>) other_machine_table @
       [\<lparr>row_id = next_id (map (\<lambda>r. r\<lparr>is_active := False\<rparr>) other_machine_table),
         license_key = ''prof-ab12-cd34-ef56'',
         machine_fingerprint = Some (MachineFingerprint_generate example_host),
         plan_type = ''PRO'', max_users = Some (plan_max_users pro_config),
         enabled_modules = Some (plan_modules pro_config),
         activation_date = Some 738000, expiry_date = Some 738365,
         is_active = True, grace_period_days = Some 7\<rparr>])"
    using activate_store_fresh [OF validate_lower_PROF_key decode_lower_PROF_key _ refl,
            of other_machine_table 738000 738365 example_host] d
    by (simp add: PRO_plan_config pro_config_def other_machine_table_def example_license_def)
  show ?thesis
    using other_machine_fingerprint
    by (simp add: u s) (simp add: other_machine_table_def example_license_def)
qed




section \<open>Remote revocation\<close>

lemma revoke_license_fails:
  "cached st = Some l \<Longrightarrow>
   revoke_license st = Inl (OperationalError ''no such column: is_revoked'')"
  by (simp add: revoke_license_def update_license_def license_columns_def)

lemma revoke_license_never_succeeds: "revoke_license st \<noteq> Inr st'"
  by (cases "cached st") (simp_all add: revoke_license_fails, simp add: revoke_license_def)

text \<open>
  Fail-open part of C3, and more: whatever the feed answers, the check returns false and
  changes nothing, because the \<open>UPDATE\<close> of \<open>revoke_license\<close> names the column
  \<open>is_revoked\<close>, which the table does not have, and the \<open>sqlite3.OperationalError\<close> is
  swallowed by the \<open>except Exception\<close> of the check.
\<close>

lemma check_remote_revocation_never_revokes:
  "check_remote_revocation st url resp = (False, st)"
  by (auto simp add: check_remote_revocation_def revoke_license_never_succeeds
      split: option.splits feed_response.splits feed_body.splits sum.splits)

text \<open>
  C3 at a failing input: the feed answers 200 and lists the key of the active, cached
  license.  The check returns false, the record stays active and cached, and \<open>is_valid\<close>
  is still true afterwards.
\<close>

theorem revocation_of_listed_key_is_lost:
  "check_remote_revocation example_state example_url example_feed = (False, example_state)
   \<and> listed (Some (license_key (example_license 738097 7))) (Some [''PROF-AB12-CD34-EF56''])
   \<and> is_active (example_license 738097 7)
   \<and> is_valid example_host 738000
        (cached (snd (check_remote_revocation example_state example_url example_feed)))
       = Inr True"
  by (simp add: check_remote_revocation_never_revokes)
     (simp add: example_state_def example_license_def listed_def is_valid_def
      license_get_is_revoked MachineFingerprint_verify_def date_add_days_def date_min_def
      date_max_def timedelta_max_days_def)

section \<open>Login failures\<close>

text \<open>
  C9.  A login with an unknown user name and a login with a known, enabled user name and
  a wrong password both raise \<open>AuthenticationError\<close> with the message
  \<open>Invalid username or password\<close>; a disabled account raises \<open>AuthenticationError\<close> with
  another message.
\<close>

theorem login_failure_messages:
  "(get_by_username (users st) (roles st) name = None \<longrightarrow>
      fst (login checkpw now st name password)
        = Inl (AuthenticationError ''Invalid username or password''))
   \<and> (get_by_username (users st) (roles st) name = Some user
        \<and> user_is_active (fst user) = Some True
        \<and> checkpw password (password_hash (fst user)) = Inr False \<longrightarrow>
      fst (login checkpw now st name password)
        = Inl (AuthenticationError ''Invalid username or password''))
   \<and> (get_by_username (users st) (roles st) name = Some user
        \<and> user_is_active (fst user) \<noteq> Some True \<longrightarrow>
      fst (login checkpw now st name password)
        = Inl (AuthenticationError ''Account is disabled. Contact administrator.'')
      \<and> fst (login checkpw now st name password)
        \<noteq> Inl (AuthenticationError ''Invalid username or password''))"
  by (simp add: login_def)

theorem login_failure_messages_witness:
  "fst (login example_checkpw 0 (example_auth (Some True)) ''nobody'' ''secret'')
     = Inl (AuthenticationError ''Invalid username or password'')
   \<and> fst (login example_checkpw 0 (example_auth (Some True)) ''asha'' ''guess'')
     = Inl (AuthenticationError ''Invalid username or password'')
   \<and> fst (login example_checkpw 0 (example_auth (Some False)) ''asha'' ''secret'')
     = Inl (AuthenticationError ''Account is disabled. Contact administrator.'')"
  using login_failure_messages [where st = "example_auth (Some True)" and name = "''nobody''"
          and checkpw = example_checkpw and now = 0 and password = "''secret''"
          and user = "(example_user (Some True), ''Sales'')"]
        login_failure_messages [where st = "example_auth (Some True)" and name = "''asha''"
          and checkpw = example_checkpw and now = 0 and password = "''guess''"
          and user = "(example_user (Some True), ''Sales'')"]
        login_failure_messages [where st = "example_auth (Some False)" and name = "''asha''"
          and checkpw = example_checkpw and now = 0 and password = "''secret''"
          and user = "(example_user (Some False), ''Sales'')"]
  by (simp add: get_by_username_def example_auth_def example_user_def example_checkpw_def)

section \<open>Permission checks\<close>

lemma flag_is_column:
  assumes "action \<in> set ACTIONS"
  shows "column_named permission_columns action = Some action"
proof -
  have "action = ''can_view'' \<or> action = ''can_create'' \<or> action = ''can_edit''
        \<or> action = ''can_delete'' \<or> action = ''can_export''"
    using assms by (simp add: ACTIONS_def)
  then show ?thesis
    by (elim disjE) (simp_all add: column_named_def permission_columns_def lower_cp_def)
qed

lemma no_row_no_match:
  "find P rows = None \<Longrightarrow> filter P rows = []"
  by (induction rows) (auto split: if_splits)

text \<open>
  C6 (as amended).  In an authenticated session whose role is \<open>Admin\<close>,
  \<open>check_permission\<close> returns true for every module and every action text, whatever
  the permission table holds.  In an authenticated session of another role, for each of
  the five permission flags of \<open>ACTIONS\<close> and a module for which the table has no row of
  that role, it returns false.
\<close>

theorem check_permission_admin_and_default:
  "(session_user sess \<noteq> None \<and> session_role_name sess = Some ''Admin'' \<longrightarrow>
      check_permission engine sess rows module action = Inr True)
   \<and> (session_user sess \<noteq> None \<and> session_role_name sess \<noteq> Some ''Admin''
        \<and> action \<in> set ACTIONS
        \<and> find (\<lambda>r. Some (perm_role_id r) = session_role_id sess \<and> perm_module r = module) rows
            = None \<longrightarrow>
      check_permission engine sess rows module action = Inr False)"
proof (intro conjI impI)
  assume "session_user sess \<noteq> None \<and> session_role_name sess = Some ''Admin''"
  then show "check_permission engine sess rows module action = Inr True"
    by (simp add: check_permission_def)
next
  assume a: "session_user sess \<noteq> None \<and> session_role_name sess \<noteq> Some ''Admin''
        \<and> action \<in> set ACTIONS
        \<and> find (\<lambda>r. Some (perm_role_id r) = session_role_id sess \<and> perm_module r = module) rows
            = None"
  then have c: "column_named permission_columns action = Some action"
    using flag_is_column by blast
  have m: "filter (\<lambda>r. Some (perm_role_id r) = session_role_id sess \<and> perm_module r = module)
             rows = []"
    using a no_row_no_match by blast
  show "check_permission engine sess rows module action = Inr False"
    using a by (simp add: check_permission_def Permission_check_permission_def c m)
qed

theorem check_permission_admin_and_default_witness:
  "check_permission refusing_engine (example_session 1 ''Admin'') [] ''users'' ''can_delete''
     = Inr True
   \<and> check_permission refusing_engine (example_session 3 ''Sales'') [example_permission]
        ''accounts'' ''can_view'' = Inr False"
  using check_permission_admin_and_default [where sess = "example_session 1 ''Admin''"
          and rows = "[]" and module = "''users''" and action = "''can_delete''"
          and engine = refusing_engine]
        check_permission_admin_and_default [where sess = "example_session 3 ''Sales''"
          and rows = "[example_permission]" and module = "''accounts''"
          and action = "''can_view''" and engine = refusing_engine]
  by (simp add: example_session_def example_permission_def ACTIONS_def)

text \<open>
  C6 as stated fails for an action that is not a column of the table: the Sales session
  has no row for the module \<open>accounts\<close>, and for the action \<open>can_approve\<close> SQLite
  refuses the statement, so \<open>check_permission\<close> raises \<open>sqlite3.OperationalError\<close>
  and returns nothing.
\<close>

theorem check_permission_unknown_flag_raises:
  "session_user (example_session 3 ''Sales'') \<noteq> None
   \<and> session_role_name (example_session 3 ''Sales'') \<noteq> Some ''Admin''
   \<and> find (\<lambda>r. Some (perm_role_id r) = session_role_id (example_session 3 ''Sales'')
                 \<and> perm_module r = ''accounts'') [example_permission] = None
   \<and> check_permission refusing_engine (example_session 3 ''Sales'') [example_permission]
        ''accounts'' ''can_approve''
       = Inl (OperationalError ''no such column: can_approve'')"
  by (simp add: check_permission_def Permission_check_permission_def example_session_def
      example_permission_def column_named_def permission_columns_def rowid_aliases_def
      lower_cp_def is_flag_name_def name_char_def)

text \<open>
  The table is read without regard to the case of the name, and the row id is a value
  like any other: with a row for the module, \<open>CAN_EDIT\<close> reads the flag \<open>can_edit\<close>
  and \<open>rowid\<close> reads the \<open>id\<close> of the row.
\<close>

lemma check_permission_other_names:
  "check_permission refusing_engine (example_session 3 ''Sales'') [example_permission]
     ''billing'' ''CAN_EDIT'' = Inr False
   \<and> check_permission refusing_engine (example_session 3 ''Sales'') [example_permission]
     ''billing'' ''rowid'' = Inr True"
  by (simp add: check_permission_def Permission_check_permission_def example_session_def
      example_permission_def column_named_def permission_columns_def rowid_aliases_def
      lower_cp_def permission_dict_def opt_val_def)

section \<open>The key format\<close>

text \<open>
  C4 at a failing input.  The key made of the sharp s and \<open>AB-ABCD-ABCD-ABCD\<close> has
  eighteen characters and a first group of three, so it does not have the shape
  XXXX-XXXX-XXXX-XXXX; \<open>upper()\<close> turns the sharp s into \<open>SS\<close>, the pattern matches,
  the decoder returns the plan BASIC and \<open>activate\<close> stores a record.
\<close>

theorem sharp_s_key_is_accepted:
  "\<not> spec_key_shape sharp_s_key
   \<and> validate_key_format sharp_s_key
   \<and> decode_license_key sharp_s_key = Some ''BASIC''
   \<and> fst (activate_store example_host 738000 [] sharp_s_key) = Inr ()"
proof -
  have v: "validate_key_format sharp_s_key"
    by (simp add: sharp_s_key_def validate_key_format_def match_key_pattern_def group4_def
        is_AZ09_def upper_def upper_char_def)
  have d: "decode_license_key sharp_s_key = Some ''BASIC''"
    by (simp add: sharp_s_key_def decode_license_key_def upper_def upper_char_def plan_codes_def
        TRIAL_def BASIC_def PRO_def ENTERPRISE_def)
  have n: "\<not> spec_key_shape sharp_s_key"
    by (simp add: sharp_s_key_def spec_key_shape_def)
  have a: "date_add_days 738000 (duration_days basic_config) = Inr 738365"
    using date_add_365 [of 738000] by (simp add: basic_config_def date_min_def date_max_def)
  show ?thesis
    using activate_store_fresh [OF v d _ refl, of "[]" 738000 738365 example_host] a n v d
    by (simp add: BASIC_plan_config)
qed

section \<open>Keys of the stated shape and ASCII keys\<close>

lemma upper_append: "upper (a @ b) = upper a @ upper b"
  by (simp add: upper_def)

lemma upper_char_alnum:
  assumes "is_alnum c"
  shows "\<exists>n. upper_char c = [n] \<and> is_AZ09 n \<and> n \<noteq> 45"
  using assms unfolding is_alnum_def upper_char_def is_AZ09_def Let_def
  by auto

lemma upper_group:
  "list_all is_alnum g \<Longrightarrow>
     length (upper g) = length g \<and> list_all is_AZ09 (upper g)
     \<and> filter (\<lambda>c. c \<noteq> 45) (upper g) = upper g"
proof (induction g)
  case Nil
  then show ?case by (simp add: upper_def)
next
  case (Cons c g)
  then obtain n where "upper_char c = [n]" "is_AZ09 n" "n \<noteq> 45"
    using upper_char_alnum [of c] by auto
  then show ?case using Cons by (simp add: upper_def)
qed

lemma upper_hyphen: "upper ''-'' = [45]"
  by (simp add: upper_def upper_char_def)

lemma key_parts:
  "s = take 4 s @ take 1 (drop 4 s) @ take 4 (drop 5 s) @ take 1 (drop 9 s)
       @ take 4 (drop 10 s) @ take 1 (drop 14 s) @ take 4 (drop 15 s) @ drop 19 s"
proof -
  have "take 4 (drop 15 s) @ drop 19 s = drop 15 s"
    using append_take_drop_id [of 4 "drop 15 s"] by simp
  moreover have "take 1 (drop 14 s) @ drop 15 s = drop 14 s"
    using append_take_drop_id [of 1 "drop 14 s"] by simp
  moreover have "take 4 (drop 10 s) @ drop 14 s = drop 10 s"
    using append_take_drop_id [of 4 "drop 10 s"] by simp
  moreover have "take 1 (drop 9 s) @ drop 10 s = drop 9 s"
    using append_take_drop_id [of 1 "drop 9 s"] by simp
  moreover have "take 4 (drop 5 s) @ drop 9 s = drop 5 s"
    using append_take_drop_id [of 4 "drop 5 s"] by simp
  moreover have "take 1 (drop 4 s) @ drop 5 s = drop 4 s"
    using append_take_drop_id [of 1 "drop 4 s"] by simp
  ultimately show ?thesis by simp
qed

lemma match_groups:
  assumes "group4 a" "group4 b" "group4 c" "group4 d"
  shows "match_key_pattern (a @ [45] @ b @ [45] @ c @ [45] @ d @ t) = (t = [] \<or> t = [10])"
  using assms by (simp add: match_key_pattern_def group4_def)

lemma filter_groups:
  assumes "filter (\<lambda>c. c \<noteq> 45) a = a" "filter (\<lambda>c. c \<noteq> 45) b = b"
    "filter (\<lambda>c. c \<noteq> 45) c = c" "filter (\<lambda>c. c \<noteq> 45) d = d"
  shows "filter (\<lambda>c. c \<noteq> (45::nat)) (a @ [45] @ b @ [45] @ c @ [45] @ d @ t)
           = a @ b @ c @ d @ filter (\<lambda>c. c \<noteq> 45) t"
  using assms by simp

lemma upper_spec_group:
  assumes "spec_group g"
  shows "group4 (upper g)" and "filter (\<lambda>c. c \<noteq> 45) (upper g) = upper g"
  using assms upper_group [of g] by (simp_all add: spec_group_def group4_def)

lemma shaped_key_upper:
  assumes "spec_key_shape key"
  shows "upper key = upper (take 4 key) @ [45] @ upper (take 4 (drop 5 key)) @ [45]
           @ upper (take 4 (drop 10 key)) @ [45] @ upper (take 4 (drop 15 key)) @ []"
proof -
  have len: "length key = 19"
    using assms unfolding spec_key_shape_def by blast
  have h: "take 1 (drop 4 key) = ''-''" "take 1 (drop 9 key) = ''-''"
    "take 1 (drop 14 key) = ''-''"
    using assms unfolding spec_key_shape_def by blast+
  have e: "drop 19 key = []"
    using len by simp
  have "key = take 4 key @ take 1 (drop 4 key) @ take 4 (drop 5 key) @ take 1 (drop 9 key)
       @ take 4 (drop 10 key) @ take 1 (drop 14 key) @ take 4 (drop 15 key) @ drop 19 key"
    by (rule key_parts)
  then have parts: "key = take 4 key @ ''-'' @ take 4 (drop 5 key) @ ''-''
       @ take 4 (drop 10 key) @ ''-'' @ take 4 (drop 15 key) @ []"
    by (simp only: h e)
  show ?thesis
    by (subst parts) (simp only: upper_append upper_hyphen, simp add: upper_def)
qed

text \<open>
  The part of C4 that holds: a key of the stated shape passes the format check, the
  decoder returns a plan for it, and the plan is BASIC when the first four characters
  are none of the four plan codes.
\<close>

lemma shaped_key_decodes:
  assumes "spec_key_shape key"
  shows "validate_key_format key"
    and "decode_license_key key
           = Some (case map_of plan_codes (upper (take 4 key)) of
                     Some plan \<Rightarrow> plan | None \<Rightarrow> BASIC)"
proof -
  have g: "spec_group (take 4 key)" "spec_group (take 4 (drop 5 key))"
    "spec_group (take 4 (drop 10 key))" "spec_group (take 4 (drop 15 key))"
    using assms unfolding spec_key_shape_def by blast+
  note u = shaped_key_upper [OF assms]
  note g4 = upper_spec_group(1) [OF g(1)] upper_spec_group(1) [OF g(2)]
    upper_spec_group(1) [OF g(3)] upper_spec_group(1) [OF g(4)]
  note f4 = upper_spec_group(2) [OF g(1)] upper_spec_group(2) [OF g(2)]
    upper_spec_group(2) [OF g(3)] upper_spec_group(2) [OF g(4)]
  show "validate_key_format key"
    using match_groups [OF g4, of "[]"] by (simp add: validate_key_format_def u)
  have "filter (\<lambda>c. c \<noteq> 45) (upper key)
          = upper (take 4 key) @ upper (take 4 (drop 5 key))
            @ upper (take 4 (drop 10 key)) @ upper (take 4 (drop 15 key))"
    using filter_groups [OF f4, of "[]"] by (simp add: u)
  then show "decode_license_key key
           = Some (case map_of plan_codes (upper (take 4 key)) of
                     Some plan \<Rightarrow> plan | None \<Rightarrow> BASIC)"
    using g4 by (simp add: decode_license_key_def group4_def)
qed

lemma unknown_plan_code_is_BASIC:
  assumes "spec_key_shape key"
    and "upper (take 4 key) \<notin> {map of_char ''TRIA'', map of_char ''BASI'',
                                 map of_char ''PROF'', map of_char ''ENTR''}"
  shows "decode_license_key key = Some ''BASIC''"
  using shaped_key_decodes(2) [OF assms(1)] assms(2)
  by (simp add: plan_codes_def BASIC_def)

lemma of_char_eq_hyphen: "((of_char c :: nat) = 45) = (c = CHR ''-'')"
proof -
  have "((of_char c :: nat) = of_char (CHR ''-'')) = (c = CHR ''-'')"
    by (rule of_char_eq_iff)
  then show ?thesis by simp
qed

lemma of_char_eq_newline: "((of_char c :: nat) = 10) = (c = CHR 0x0A)"
proof -
  have "((of_char c :: nat) = of_char (CHR 0x0A)) = (c = CHR 0x0A)"
    by (rule of_char_eq_iff)
  then show ?thesis by simp
qed

lemma upper_char_ascii:
  "(of_char c :: nat) < 128 \<Longrightarrow> upper_char c = [upper_ascii_char c]"
  by (simp add: upper_char_def upper_ascii_char_def Let_def)

lemma upper_ascii: "is_ascii s \<Longrightarrow> upper s = map upper_ascii_char s"
  by (induction s) (simp_all add: is_ascii_def upper_def upper_char_ascii)

lemma upper_ascii_char_AZ09: "is_AZ09 (upper_ascii_char c) = is_alnum c"
  unfolding is_AZ09_def is_alnum_def upper_ascii_char_def Let_def by auto

lemma upper_ascii_char_hyphen: "(upper_ascii_char c = 45) = (c = CHR ''-'')"
proof -
  have "(upper_ascii_char c = 45) = ((of_char c :: nat) = 45)"
    unfolding upper_ascii_char_def Let_def by auto
  then show ?thesis by (simp add: of_char_eq_hyphen)
qed

lemma upper_ascii_char_newline: "(upper_ascii_char c = 10) = (c = CHR 0x0A)"
proof -
  have "(upper_ascii_char c = 10) = ((of_char c :: nat) = 10)"
    unfolding upper_ascii_char_def Let_def by auto
  then show ?thesis by (simp add: of_char_eq_newline)
qed

lemma group4_map: "group4 (map upper_ascii_char g) = spec_group g"
  by (simp add: group4_def spec_group_def list_all_iff upper_ascii_char_AZ09)

lemma map_eq_hyphen: "(map upper_ascii_char xs = [45]) = (xs = ''-'')"
  by (cases xs) (auto simp add: upper_ascii_char_hyphen)

lemma map_eq_newline: "(map upper_ascii_char xs = [10]) = (xs = [CHR 0x0A])"
  by (cases xs) (auto simp add: upper_ascii_char_newline)

lemma group4_no_hyphen: "group4 g \<Longrightarrow> filter (\<lambda>c. c \<noteq> 45) g = g"
  by (auto simp add: group4_def is_AZ09_def list_all_iff filter_id_conv)

text \<open>On ASCII keys the pattern accepts the stated shape, alone or followed by one newline.\<close>

lemma validate_ascii:
  assumes "is_ascii key"
  shows "validate_key_format key =
           (spec_group (take 4 key) \<and> take 1 (drop 4 key) = ''-''
            \<and> spec_group (take 4 (drop 5 key)) \<and> take 1 (drop 9 key) = ''-''
            \<and> spec_group (take 4 (drop 10 key)) \<and> take 1 (drop 14 key) = ''-''
            \<and> spec_group (take 4 (drop 15 key))
            \<and> (drop 19 key = [] \<or> drop 19 key = [CHR 0x0A]))"
  by (simp only: validate_key_format_def upper_ascii [OF assms] match_key_pattern_def
      take_map drop_map group4_map map_eq_hyphen map_eq_newline map_is_Nil_conv)

lemma decode_with_newline:
  assumes "is_ascii key" and "validate_key_format key" and "drop 19 key = [CHR 0x0A]"
  shows "decode_license_key key = None"
proof -
  have v: "spec_group (take 4 key)" "take 1 (drop 4 key) = ''-''"
    "spec_group (take 4 (drop 5 key))" "take 1 (drop 9 key) = ''-''"
    "spec_group (take 4 (drop 10 key))" "take 1 (drop 14 key) = ''-''"
    "spec_group (take 4 (drop 15 key))"
    using assms(2) unfolding validate_ascii [OF assms(1)] by blast+
  have "key = take 4 key @ take 1 (drop 4 key) @ take 4 (drop 5 key) @ take 1 (drop 9 key)
       @ take 4 (drop 10 key) @ take 1 (drop 14 key) @ take 4 (drop 15 key) @ drop 19 key"
    by (rule key_parts)
  then have parts: "key = take 4 key @ ''-'' @ take 4 (drop 5 key) @ ''-''
       @ take 4 (drop 10 key) @ ''-'' @ take 4 (drop 15 key) @ [CHR 0x0A]"
    by (simp only: v assms(3))
  have u: "upper key = upper (take 4 key) @ [45] @ upper (take 4 (drop 5 key)) @ [45]
       @ upper (take 4 (drop 10 key)) @ [45] @ upper (take 4 (drop 15 key)) @ [10]"
    by (subst parts) (simp only: upper_append upper_hyphen, simp add: upper_def upper_char_def)
  note g4 = upper_spec_group(1) [OF v(1)] upper_spec_group(1) [OF v(3)]
    upper_spec_group(1) [OF v(5)] upper_spec_group(1) [OF v(7)]
  note f4 = upper_spec_group(2) [OF v(1)] upper_spec_group(2) [OF v(3)]
    upper_spec_group(2) [OF v(5)] upper_spec_group(2) [OF v(7)]
  have "filter (\<lambda>c. c \<noteq> 45) (upper key)
          = upper (take 4 key) @ upper (take 4 (drop 5 key))
            @ upper (take 4 (drop 10 key)) @ upper (take 4 (drop 15 key)) @ [10]"
    using filter_groups [OF f4, of "[10]"] by (simp add: u)
  then show ?thesis
    using g4 by (simp add: decode_license_key_def group4_def)
qed

text \<open>
  The part of C4 that holds on ASCII keys: a key that does not have the stated shape
  makes \<open>activate\<close> raise a \<open>LicenseError\<close> before anything is stored.
\<close>

lemma ascii_key_of_other_shape_is_refused:
  assumes "is_ascii key" and "\<not> spec_key_shape key"
  shows "activate_store h today rows key = (Inl (LicenseError ''Invalid license key format''), rows)
         \<or> activate_store h today rows key
              = (Inl (LicenseError ''Invalid or corrupted license key''), rows)"
proof (cases "validate_key_format key")
  case False
  then show ?thesis by (simp add: activate_store_def)
next
  case True
  have g: "spec_group (take 4 (drop 15 key))"
    and rest: "spec_group (take 4 key)" "take 1 (drop 4 key) = ''-''"
    "spec_group (take 4 (drop 5 key))" "take 1 (drop 9 key) = ''-''"
    "spec_group (take 4 (drop 10 key))" "take 1 (drop 14 key) = ''-''"
    and tail: "drop 19 key = [] \<or> drop 19 key = [CHR 0x0A]"
    using True unfolding validate_ascii [OF assms(1)] by blast+
  have "drop 19 key \<noteq> []"
  proof
    assume e: "drop 19 key = []"
    have "length (take 4 (drop 15 key)) = 4"
      using g by (simp only: spec_group_def)
    then have "length key = 19"
      using e by simp
    then have "spec_key_shape key"
      using g rest by (simp only: spec_key_shape_def simp_thms)
    then show False using assms(2) by simp
  qed
  then have "drop 19 key = [CHR 0x0A]"
    using tail by simp
  then have "decode_license_key key = None"
    using decode_with_newline [OF assms(1) True] by simp
  then show ?thesis
    using True by (simp add: activate_store_def)
qed

section \<open>Evaluating SHA-256\<close>

text \<open>
  The digest of a one-block message is computed in stages: the padded block, the message
  schedule, the sixty-four rounds in eight groups, and the final addition.  The first
  digest is the test vector \<open>abc\<close> of FIPS 180-4.
\<close>

lemma sha_abc_block: "map be_words (blocks (pad256 (encode ''abc''))) = [[0x61626380, 0x0, 0x0, 0x0, 0x0, 0x0, 0x0, 0x0, 0x0, 0x0, 0x0, 0x0, 0x0, 0x0, 0x0, 0x18]]"
  by code_simp

lemma sha_abc_schedule: "schedule [0x61626380, 0x0, 0x0, 0x0, 0x0, 0x0, 0x0, 0x0, 0x0, 0x0, 0x0, 0x0, 0x0, 0x0, 0x0, 0x18] = [0x61626380, 0x0, 0x0, 0x0, 0x0, 0x0, 0x0, 0x0, 0x0, 0x0, 0x0, 0x0, 0x0, 0x0, 0x0, 0x18, 0x61626380, 0xf0000, 0x7da86405, 0x600003c6, 0x3e9d7b78, 0x183fc00, 0x12dcbfdb, 0xe2e2c38e, 0xc8215c1a, 0xb73679a2, 0xe5bc3909, 0x32663c5b, 0x9d209d67, 0xec8726cb, 0x702138a4, 0xd3b7973b, 0x93f5997f, 0x3b68ba73, 0xaff4ffc1, 0xf10a5c62, 0xa8b3996, 0x72af830a, 0x9409e33e, 0x24641522, 0x9f47bf94, 0xf0a64f5a, 0x3e246a79, 0x27333ba3, 0xc4763f2, 0x840abf27, 0x7a290d5d, 0x65c43da, 0xfb3e89cb, 0xcc7617db, 0xb9e66c34, 0xa9993667, 0x84badedd, 0xc21462bc, 0x1487472c, 0xb20f7a99, 0xef57b9cd, 0xebe6b238, 0x9fe3095e, 0x78bc8d4b, 0xa43fcf15, 0x668b2ff8, 0xeeaba2cc, 0x12b1edeb]"
  by (simp add: schedule_def sched_step_def ssig0_def ssig1_def rotr_def)

lemma sha_abc_rounds_0: "foldl round256 H256 (zip K256_0 [0x61626380, 0x0, 0x0, 0x0, 0x0, 0x0, 0x0, 0x0]) = [0x85a07b5f, 0xe5030380, 0x2b4209f5, 0x4409a6a, 0xc657a79, 0x9b27a401, 0x714260ad, 0x43ada245]"
  by (simp add: H256_def K256_0_def bsig0_def bsig1_def ch_def maj_def rotr_def)

lemma sha_abc_rounds_1: "foldl round256 [0x85a07b5f, 0xe5030380, 0x2b4209f5, 0x4409a6a, 0xc657a79, 0x9b27a401, 0x714260ad, 0x43ada245] (zip K256_1 [0x0, 0x0, 0x0, 0x0, 0x0, 0x0, 0x0, 0x18]) = [0xb0fa238e, 0xc0645fde, 0xd932eb16, 0x87912990, 0x7590dcd, 0xb92f20c, 0x745a48de, 0x1e578218]"
  by (simp add: H256_def K256_1_def bsig0_def bsig1_def ch_def maj_def rotr_def)

lemma sha_abc_rounds_2: "foldl round256 [0xb0fa238e, 0xc0645fde, 0xd932eb16, 0x87912990, 0x7590dcd, 0xb92f20c, 0x745a48de, 0x1e578218] (zip K256_2 [0x61626380, 0xf0000, 0x7da86405, 0x600003c6, 0x3e9d7b78, 0x183fc00, 0x12dcbfdb, 0xe2e2c38e]) = [0xc5d53d8d, 0xa7a3623f, 0xc2606d6d, 0x9dc68b63, 0xaa47c347, 0x49f5114a, 0xe1257970, 0x8ada8930]"
  by (simp add: H256_def K256_2_def bsig0_def bsig1_def ch_def maj_def rotr_def)

lemma sha_abc_rounds_3: "foldl round256 [0xc5d53d8d, 0xa7a3623f, 0xc2606d6d, 0x9dc68b63, 0xaa47c347, 0x49f5114a, 0xe1257970, 0x8ada8930] (zip K256_3 [0xc8215c1a, 0xb73679a2, 0xe5bc3909, 0x32663c5b, 0x9d209d67, 0xec8726cb, 0x702138a4, 0xd3b7973b]) = [0x73b33bf5, 0xea992a22, 0xa0060b30, 0x363482c9, 0xba591112, 0x109ab3a, 0xade79437, 0x6112a3b7]"
  by (simp add: H256_def K256_3_def bsig0_def bsig1_def ch_def maj_def rotr_def)

lemma sha_abc_rounds_4: "foldl round256 [0x73b33bf5, 0xea992a22, 0xa0060b30, 0x363482c9, 0xba591112, 0x109ab3a, 0xade79437, 0x6112a3b7] (zip K256_4 [0x93f5997f, 0x3b68ba73, 0xaff4ffc1, 0xf10a5c62, 0xa8b3996, 0x72af830a, 0x9409e33e, 0x24641522]) = [0x79ea687a, 0x6dc57a8a, 0x34df1604, 0x41a65cb1, 0x1efbc0a0, 0xf0781bc8, 0xa507a53d, 0x772a26b]"
  by (simp add: H256_def K256_4_def bsig0_def bsig1_def ch_def maj_def rotr_def)

lemma sha_abc_rounds_5: "foldl round256 [0x79ea687a, 0x6dc57a8a, 0x34df1604, 0x41a65cb1, 0x1efbc0a0, 0xf0781bc8, 0xa507a53d, 0x772a26b] (zip K256_5 [0x9f47bf94, 0xf0a64f5a, 0x3e246a79, 0x27333ba3, 0xc4763f2, 0x840abf27, 0x7a290d5d, 0x65c43da]) = [0x4172328d, 0xa14c14b0, 0x72ab4b91, 0x26628815, 0xfecf0bc6, 0xd57b94a9, 0xb7755da1, 0xa80f11f0]"
  by (simp add: H256_def K256_5_def bsig0_def bsig1_def ch_def maj_def rotr_def)

lemma sha_abc_rounds_6: "foldl round256 [0x4172328d, 0xa14c14b0, 0x72ab4b91, 0x26628815, 0xfecf0bc6, 0xd57b94a9, 0xb7755da1, 0xa80f11f0] (zip K256_6 [0xfb3e89cb, 0xcc7617db, 0xb9e66c34, 0xa9993667, 0x84badedd, 0xc21462bc, 0x1487472c, 0xb20f7a99]) = [0x38cc9913, 0x3ec45cdb, 0xf5702fdb, 0x101fd28f, 0x54cb266b, 0xe50e1b4f, 0x9f4787c3, 0x529e7d00]"
  by (simp add: H256_def K256_6_def bsig0_def bsig1_def ch_def maj_def rotr_def)

lemma sha_abc_rounds_7: "foldl round256 [0x38cc9913, 0x3ec45cdb, 0xf5702fdb, 0x101fd28f, 0x54cb266b, 0xe50e1b4f, 0x9f4787c3, 0x529e7d00] (zip K256_7 [0xef57b9cd, 0xebe6b238, 0x9fe3095e, 0x78bc8d4b, 0xa43fcf15, 0x668b2ff8, 0xeeaba2cc, 0x12b1edeb]) = [0x506e3058, 0xd39a2165, 0x4d24d6c, 0xb85e2ce9, 0x5ef50f24, 0xfb121210, 0x948d25b6, 0x961f4894]"
  by (simp add: H256_def K256_7_def bsig0_def bsig1_def ch_def maj_def rotr_def)

lemma sha_abc_zip: "zip K256 [0x61626380, 0x0, 0x0, 0x0, 0x0, 0x0, 0x0, 0x0, 0x0, 0x0, 0x0, 0x0, 0x0, 0x0, 0x0, 0x18, 0x61626380, 0xf0000, 0x7da86405, 0x600003c6, 0x3e9d7b78, 0x183fc00, 0x12dcbfdb, 0xe2e2c38e, 0xc8215c1a, 0xb73679a2, 0xe5bc3909, 0x32663c5b, 0x9d209d67, 0xec8726cb, 0x702138a4, 0xd3b7973b, 0x93f5997f, 0x3b68ba73, 0xaff4ffc1, 0xf10a5c62, 0xa8b3996, 0x72af830a, 0x9409e33e, 0x24641522, 0x9f47bf94, 0xf0a64f5a, 0x3e246a79, 0x27333ba3, 0xc4763f2, 0x840abf27, 0x7a290d5d, 0x65c43da, 0xfb3e89cb, 0xcc7617db, 0xb9e66c34, 0xa9993667, 0x84badedd, 0xc21462bc, 0x1487472c, 0xb20f7a99, 0xef57b9cd, 0xebe6b238, 0x9fe3095e, 0x78bc8d4b, 0xa43fcf15, 0x668b2ff8, 0xeeaba2cc, 0x12b1edeb] = zip K256_0 [0x61626380, 0x0, 0x0, 0x0, 0x0, 0x0, 0x0, 0x0] @ zip K256_1 [0x0, 0x0, 0x0, 0x0, 0x0, 0x0, 0x0, 0x18] @ zip K256_2 [0x61626380, 0xf0000, 0x7da86405, 0x600003c6, 0x3e9d7b78, 0x183fc00, 0x12dcbfdb, 0xe2e2c38e] @ zip K256_3 [0xc8215c1a, 0xb73679a2, 0xe5bc3909, 0x32663c5b, 0x9d209d67, 0xec8726cb, 0x702138a4, 0xd3b7973b] @ zip K256_4 [0x93f5997f, 0x3b68ba73, 0xaff4ffc1, 0xf10a5c62, 0xa8b3996, 0x72af830a, 0x9409e33e, 0x24641522] @ zip K256_5 [0x9f47bf94, 0xf0a64f5a, 0x3e246a79, 0x27333ba3, 0xc4763f2, 0x840abf27, 0x7a290d5d, 0x65c43da] @ zip K256_6 [0xfb3e89cb, 0xcc7617db, 0xb9e66c34, 0xa9993667, 0x84badedd, 0xc21462bc, 0x1487472c, 0xb20f7a99] @ zip K256_7 [0xef57b9cd, 0xebe6b238, 0x9fe3095e, 0x78bc8d4b, 0xa43fcf15, 0x668b2ff8, 0xeeaba2cc, 0x12b1edeb]"
  by (simp add: K256_def K256_0_def K256_1_def K256_2_def K256_3_def K256_4_def K256_5_def K256_6_def K256_7_def)

lemma sha_abc_compress: "compress H256 [0x61626380, 0x0, 0x0, 0x0, 0x0, 0x0, 0x0, 0x0, 0x0, 0x0, 0x0, 0x0, 0x0, 0x0, 0x0, 0x18] = [0xba7816bf, 0x8f01cfea, 0x414140de, 0x5dae2223, 0xb00361a3, 0x96177a9c, 0xb410ff61, 0xf20015ad]"
  by (simp only: compress_def sha_abc_schedule sha_abc_zip foldl_append sha_abc_rounds_0 sha_abc_rounds_1 sha_abc_rounds_2 sha_abc_rounds_3 sha_abc_rounds_4 sha_abc_rounds_5 sha_abc_rounds_6 sha_abc_rounds_7) (simp add: H256_def)

lemma sha_abc_digest: "sha256_hexdigest ''abc'' = ''ba7816bf8f01cfea414140de5dae2223b00361a396177a9cb410ff61f20015ad''"
  by (simp add: sha256_hexdigest_def sha256_def sha_abc_block sha_abc_compress word_bytes_def hexdigest_def hex_digit_def)

text \<open>The two strings that the fingerprint generators hash on the example host.\<close>

lemma fingerprint_str_example: "fingerprint_str example_host = ''shop-pc|x86_64|x86_64|1''"
  by (simp add: fingerprint_str_def example_host_def str_nat.simps digit_char_def)

lemma fingerprint_source_example: "fingerprint_source example_host = ''shop-pc|x86_64|x86_64|00:00:00:00:00:01''"
  by (simp add: fingerprint_source_def example_host_def get_cpu_id_def get_disk_serial_def
      get_motherboard_serial_def get_mac_address_def format_012X_def hex_upper.simps
      digit_char_def strip_def is_space_def numeral_2_eq_2)

lemma fp_manager_block: "map be_words (blocks (pad256 (encode ''shop-pc|x86_64|x86_64|1''))) = [[0x73686f70, 0x2d70637c, 0x7838365f, 0x36347c78, 0x38365f36, 0x347c3180, 0x0, 0x0, 0x0, 0x0, 0x0, 0x0, 0x0, 0x0, 0x0, 0xb8]]"
  by code_simp

lemma fp_manager_schedule: "schedule [0x73686f70, 0x2d70637c, 0x7838365f, 0x36347c78, 0x38365f36, 0x347c3180, 0x0, 0x0, 0x0, 0x0, 0x0, 0x0, 0x0, 0x0, 0x0, 0xb8] = [0x73686f70, 0x2d70637c, 0x7838365f, 0x36347c78, 0x38365f36, 0x347c3180, 0x0, 0x0, 0x0, 0x0, 0x0, 0x0, 0x0, 0x0, 0x0, 0xb8, 0x58945765, 0xea1c0c25, 0x33543a6, 0xba9c751b, 0x4c64df2e, 0xe87c3e80, 0xf461f741, 0xf13ecda3, 0xaf91e8e6, 0xc28f0cb1, 0x83e0db5b, 0xb4635a03, 0x5f62883a, 0xbaceabac, 0x767a8ab8, 0x49a5799, 0x84d8d281, 0xebc4ae09, 0x682abb5a, 0x3fddf848, 0x258f444a, 0x82ce38c1, 0x2e4edce1, 0xf40497fd, 0xa364774, 0x95a347d7, 0x76791e5b, 0x8282f2d0, 0x73f37340, 0xecbe3416, 0xe9d02d8a, 0x12b5ee15, 0x52f7de9d, 0xc40deaf2, 0xe8cd780a, 0x3dd024e7, 0x42f7ce5b, 0xf42b815c, 0x2093269d, 0x70450bf7, 0x32440e15, 0xa2bf13b2, 0x48ef6cca, 0x834c0069, 0x81584d12, 0x90f59d20, 0xdd1712c8, 0x8966a400]"
  by (simp add: schedule_def sched_step_def ssig0_def ssig1_def rotr_def)

lemma fp_manager_rounds_0: "foldl round256 H256 (zip K256_0 [0x73686f70, 0x2d70637c, 0x7838365f, 0x36347c78, 0x38365f36, 0x347c3180, 0x0, 0x0]) = [0x607983b8, 0xd868875e, 0x4e81ca06, 0x7a8e336a, 0xcd24694, 0x6eab3fde, 0x8c3a0b8f, 0xae12e4cc]"
  by (simp add: H256_def K256_0_def bsig0_def bsig1_def ch_def maj_def rotr_def)

lemma fp_manager_rounds_1: "foldl round256 [0x607983b8, 0xd868875e, 0x4e81ca06, 0x7a8e336a, 0xcd24694, 0x6eab3fde, 0x8c3a0b8f, 0xae12e4cc] (zip K256_1 [0x0, 0x0, 0x0, 0x0, 0x0, 0x0, 0x0, 0xb8]) = [0xf7afbe13, 0x75e60076, 0x7aad21f3, 0x957bd572, 0x16dbaea4, 0xc9707500, 0xe0335539, 0x27a6d226]"
  by (simp add: H256_def K256_1_def bsig0_def bsig1_def ch_def maj_def rotr_def)

lemma fp_manager_rounds_2: "foldl round256 [0xf7afbe13, 0x75e60076, 0x7aad21f3, 0x957bd572, 0x16dbaea4, 0xc9707500, 0xe0335539, 0x27a6d226] (zip K256_2 [0x58945765, 0xea1c0c25, 0x33543a6, 0xba9c751b, 0x4c64df2e, 0xe87c3e80, 0xf461f741, 0xf13ecda3]) = [0xd6841b91, 0x3a10961c, 0x352b5530, 0xc0c82a67, 0xf9bba272, 0xbfe301bd, 0x6bb09a57, 0xfbab2315]"
  by (simp add: H256_def K256_2_def bsig0_def bsig1_def ch_def maj_def rotr_def)

lemma fp_manager_rounds_3: "foldl round256 [0xd6841b91, 0x3a10961c, 0x352b5530, 0xc0c82a67, 0xf9bba272, 0xbfe301bd, 0x6bb09a57, 0xfbab2315] (zip K256_3 [0xaf91e8e6, 0xc28f0cb1, 0x83e0db5b, 0xb4635a03, 0x5f62883a, 0xbaceabac, 0x767a8ab8, 0x49a5799]) = [0xcf25c49a, 0x5973fe1, 0xa62187ab, 0x22832cd7, 0xa6b215b8, 0xc794c68, 0xf425082b, 0x7bdcc1fd]"
  by (simp add: H256_def K256_3_def bsig0_def bsig1_def ch_def maj_def rotr_def)

lemma fp_manager_rounds_4: "foldl round256 [0xcf25c49a, 0x5973fe1, 0xa62187ab, 0x22832cd7, 0xa6b215b8, 0xc794c68, 0xf425082b, 0x7bdcc1fd] (zip K256_4 [0x84d8d281, 0xebc4ae09, 0x682abb5a, 0x3fddf848, 0x258f444a, 0x82ce38c1, 0x2e4edce1, 0xf40497fd]) = [0xbda6aa1b, 0xc62af757, 0xbd692871, 0x33552378, 0xa00f41c8, 0x70509395, 0xd93c950, 0x4fbd9624]"
  by (simp add: H256_def K256_4_def bsig0_def bsig1_def ch_def maj_def rotr_def)

lemma fp_manager_rounds_5: "foldl round256 [0xbda6aa1b, 0xc62af757, 0xbd692871, 0x33552378, 0xa00f41c8, 0x70509395, 0xd93c950, 0x4fbd9624] (zip K256_5 [0xa364774, 0x95a347d7, 0x76791e5b, 0x8282f2d0, 0x73f37340, 0xecbe3416, 0xe9d02d8a, 0x12b5ee15]) = [0xa56d6ff9, 0x89dcacee, 0x81b95d5a, 0xd25bee8d, 0x12ab576f, 0xb102d49e, 0xd3768f2c, 0x7cc068a7]"
  by (simp add: H256_def K256_5_def bsig0_def bsig1_def ch_def maj_def rotr_def)

lemma fp_manager_rounds_6: "foldl round256 [0xa56d6ff9, 0x89dcacee, 0x81b95d5a, 0xd25bee8d, 0x12ab576f, 0xb102d49e, 0xd3768f2c, 0x7cc068a7] (zip K256_6 [0x52f7de9d, 0xc40deaf2, 0xe8cd780a, 0x3dd024e7, 0x42f7ce5b, 0xf42b815c, 0x2093269d, 0x70450bf7]) = [0x62bc2b43, 0xb796fab, 0xb1ede13a, 0x56913a8b, 0x65ff89b3, 0x7354313d, 0x133acaff, 0x63db321]"
  by (simp add: H256_def K256_6_def bsig0_def bsig1_def ch_def maj_def rotr_def)

lemma fp_manager_rounds_7: "foldl round256 [0x62bc2b43, 0xb796fab, 0xb1ede13a, 0x56913a8b, 0x65ff89b3, 0x7354313d, 0x133acaff, 0x63db321] (zip K256_7 [0x32440e15, 0xa2bf13b2, 0x48ef6cca, 0x834c0069, 0x81584d12, 0x90f59d20, 0xdd1712c8, 0x8966a400]) = [0xaf7b8639, 0x4db11e55, 0xd436d6f5, 0x79a8065f, 0xbf775a91, 0xde0e18aa, 0x83803418, 0xe93e8052]"
  by (simp add: H256_def K256_7_def bsig0_def bsig1_def ch_def maj_def rotr_def)

lemma fp_manager_zip: "zip K256 [0x73686f70, 0x2d70637c, 0x7838365f, 0x36347c78, 0x38365f36, 0x347c3180, 0x0, 0x0, 0x0, 0x0, 0x0, 0x0, 0x0, 0x0, 0x0, 0xb8, 0x58945765, 0xea1c0c25, 0x33543a6, 0xba9c751b, 0x4c64df2e, 0xe87c3e80, 0xf461f741, 0xf13ecda3, 0xaf91e8e6, 0xc28f0cb1, 0x83e0db5b, 0xb4635a03, 0x5f62883a, 0xbaceabac, 0x767a8ab8, 0x49a5799, 0x84d8d281, 0xebc4ae09, 0x682abb5a, 0x3fddf848, 0x258f444a, 0x82ce38c1, 0x2e4edce1, 0xf40497fd, 0xa364774, 0x95a347d7, 0x76791e5b, 0x8282f2d0, 0x73f37340, 0xecbe3416, 0xe9d02d8a, 0x12b5ee15, 0x52f7de9d, 0xc40deaf2, 0xe8cd780a, 0x3dd024e7, 0x42f7ce5b, 0xf42b815c, 0x2093269d, 0x70450bf7, 0x32440e15, 0xa2bf13b2, 0x48ef6cca, 0x834c0069, 0x81584d12, 0x90f59d20, 0xdd1712c8, 0x8966a400] = zip K256_0 [0x73686f70, 0x2d70637c, 0x7838365f, 0x36347c78, 0x38365f36, 0x347c3180, 0x0, 0x0] @ zip K256_1 [0x0, 0x0, 0x0, 0x0, 0x0, 0x0, 0x0, 0xb8] @ zip K256_2 [0x58945765, 0xea1c0c25, 0x33543a6, 0xba9c751b, 0x4c64df2e, 0xe87c3e80, 0xf461f741, 0xf13ecda3] @ zip K256_3 [0xaf91e8e6, 0xc28f0cb1, 0x83e0db5b, 0xb4635a03, 0x5f62883a, 0xbaceabac, 0x767a8ab8, 0x49a5799] @ zip K256_4 [0x84d8d281, 0xebc4ae09, 0x682abb5a, 0x3fddf848, 0x258f444a, 0x82ce38c1, 0x2e4edce1, 0xf40497fd] @ zip K256_5 [0xa364774, 0x95a347d7, 0x76791e5b, 0x8282f2d0, 0x73f37340, 0xecbe3416, 0xe9d02d8a, 0x12b5ee15] @ zip K256_6 [0x52f7de9d, 0xc40deaf2, 0xe8cd780a, 0x3dd024e7, 0x42f7ce5b, 0xf42b815c, 0x2093269d, 0x70450bf7] @ zip K256_7 [0x32440e15, 0xa2bf13b2, 0x48ef6cca, 0x834c0069, 0x81584d12, 0x90f59d20, 0xdd1712c8, 0x8966a400]"
  by (simp add: K256_def K256_0_def K256_1_def K256_2_def K256_3_def K256_4_def K256_5_def K256_6_def K256_7_def)

lemma fp_manager_compress: "compress H256 [0x73686f70, 0x2d70637c, 0x7838365f, 0x36347c78, 0x38365f36, 0x347c3180, 0x0, 0x0, 0x0, 0x0, 0x0, 0x0, 0x0, 0x0, 0x0, 0xb8] = [0x19856ca0, 0x918ccda, 0x10a5ca67, 0x1ef7fb99, 0x1085ad10, 0x79138136, 0xa3040dc3, 0x451f4d6b]"
  by (simp only: compress_def fp_manager_schedule fp_manager_zip foldl_append fp_manager_rounds_0 fp_manager_rounds_1 fp_manager_rounds_2 fp_manager_rounds_3 fp_manager_rounds_4 fp_manager_rounds_5 fp_manager_rounds_6 fp_manager_rounds_7) (simp add: H256_def)

lemma fp_manager_digest: "sha256_hexdigest ''shop-pc|x86_64|x86_64|1'' = ''19856ca00918ccda10a5ca671ef7fb991085ad1079138136a3040dc3451f4d6b''"
  by (simp add: sha256_hexdigest_def sha256_def fp_manager_block fp_manager_compress word_bytes_def hexdigest_def hex_digit_def)

lemma fp_module_block: "map be_words (blocks (pad256 (encode ''shop-pc|x86_64|x86_64|00:00:00:00:00:01''))) = [[0x73686f70, 0x2d70637c, 0x7838365f, 0x36347c78, 0x38365f36, 0x347c3030, 0x3a30303a, 0x30303a30, 0x303a3030, 0x3a303180, 0x0, 0x0, 0x0, 0x0, 0x0, 0x138]]"
  by code_simp

lemma fp_module_schedule: "schedule [0x73686f70, 0x2d70637c, 0x7838365f, 0x36347c78, 0x38365f36, 0x347c3030, 0x3a30303a, 0x30303a30, 0x303a3030, 0x3a303180, 0x0, 0x0, 0x0, 0x0, 0x0, 0x138] = [0x73686f70, 0x2d70637c, 0x7838365f, 0x36347c78, 0x38365f36, 0x347c3030, 0x3a30303a, 0x30303a30, 0x303a3030, 0x3a303180, 0x0, 0x0, 0x0, 0x0, 0x0, 0x138, 0x92c488e5, 0xea8c0c25, 0x3737eb71, 0xba9c90e1, 0xabfd4336, 0x8dfb6654, 0xacf21c81, 0x8d23ab18, 0x74148494, 0x12343cd0, 0x8d62428a, 0x45f3c989, 0xf732b5e1, 0x4ad71336, 0x9e2b50f, 0xdb485c7d, 0x6aac654, 0xbbcab2fe, 0xa92ba3c5, 0xe9c3b711, 0xfdb63b3c, 0xd716a12c, 0x2d79175e, 0x1fa44acb, 0x8685b056, 0xfbaf1555, 0xcd7dfc77, 0x1c58fc47, 0xb0d27670, 0x8c68f7df, 0x972268ad, 0xe0524743, 0xc271fb60, 0x6b40919c, 0x5ba11110, 0xde002ae9, 0x1fe3ce9d, 0x7a79ba3e, 0x33df39c4, 0x9e24cf13, 0xdf746cb7, 0xdec51373, 0x1a1b5a15, 0xd304b6f8, 0x84fd0554, 0x61c1507e, 0x618339d2, 0xe9022c8c]"
  by (simp add: schedule_def sched_step_def ssig0_def ssig1_def rotr_def)

lemma fp_module_rounds_0: "foldl round256 H256 (zip K256_0 [0x73686f70, 0x2d70637c, 0x7838365f, 0x36347c78, 0x38365f36, 0x347c3030, 0x3a30303a, 0x30303a30]) = [0x8f845caf, 0x710f3d92, 0x4e81c8b6, 0x7a8e336a, 0xfea1f440, 0xfadb387e, 0x8c3a0a3f, 0xae12e4cc]"
  by (simp add: H256_def K256_0_def bsig0_def bsig1_def ch_def maj_def rotr_def)

lemma fp_module_rounds_1: "foldl round256 [0x8f845caf, 0x710f3d92, 0x4e81c8b6, 0x7a8e336a, 0xfea1f440, 0xfadb387e, 0x8c3a0a3f, 0xae12e4cc] (zip K256_1 [0x303a3030, 0x3a303180, 0x0, 0x0, 0x0, 0x0, 0x0, 0x138]) = [0x69d67764, 0xc85b6bce, 0xb90e8dc6, 0x5c3c809a, 0xae638d65, 0x773a33ad, 0xf368eaff, 0x96f5547d]"
  by (simp add: H256_def K256_1_def bsig0_def bsig1_def ch_def maj_def rotr_def)

lemma fp_module_rounds_2: "foldl round256 [0x69d67764, 0xc85b6bce, 0xb90e8dc6, 0x5c3c809a, 0xae638d65, 0x773a33ad, 0xf368eaff, 0x96f5547d] (zip K256_2 [0x92c488e5, 0xea8c0c25, 0x3737eb71, 0xba9c90e1, 0xabfd4336, 0x8dfb6654, 0xacf21c81, 0x8d23ab18]) = [0x82f23ad9, 0xed86d974, 0x8be51696, 0x5e7d5109, 0x800ccc78, 0x1b8ef3a, 0x59e5e019, 0xdfefb548]"
  by (simp add: H256_def K256_2_def bsig0_def bsig1_def ch_def maj_def rotr_def)

lemma fp_module_rounds_3: "foldl round256 [0x82f23ad9, 0xed86d974, 0x8be51696, 0x5e7d5109, 0x800ccc78, 0x1b8ef3a, 0x59e5e019, 0xdfefb548] (zip K256_3 [0x74148494, 0x12343cd0, 0x8d62428a, 0x45f3c989, 0xf732b5e1, 0x4ad71336, 0x9e2b50f, 0xdb485c7d]) = [0xe910676a, 0xc5e016dc, 0x9f5c69d5, 0x5166c96b, 0x755f5e89, 0x186bab6a, 0x21108cf0, 0x9b373c5e]"
  by (simp add: H256_def K256_3_def bsig0_def bsig1_def ch_def maj_def rotr_def)

lemma fp_module_rounds_4: "foldl round256 [0xe910676a, 0xc5e016dc, 0x9f5c69d5, 0x5166c96b, 0x755f5e89, 0x186bab6a, 0x21108cf0, 0x9b373c5e] (zip K256_4 [0x6aac654, 0xbbcab2fe, 0xa92ba3c5, 0xe9c3b711, 0xfdb63b3c, 0xd716a12c, 0x2d79175e, 0x1fa44acb]) = [0x59827864, 0xfdcae782, 0x49a745a1, 0x57477ac8, 0xbeec4ff5, 0xeab81326, 0x20650b13, 0xca698322]"
  by (simp add: H256_def K256_4_def bsig0_def bsig1_def ch_def maj_def rotr_def)

lemma fp_module_rounds_5: "foldl round256 [0x59827864, 0xfdcae782, 0x49a745a1, 0x57477ac8, 0xbeec4ff5, 0xeab81326, 0x20650b13, 0xca698322] (zip K256_5 [0x8685b056, 0xfbaf1555, 0xcd7dfc77, 0x1c58fc47, 0xb0d27670, 0x8c68f7df, 0x972268ad, 0xe0524743]) = [0x5f8a3e39, 0x49470e6a, 0x7929a7c6, 0x6ab76e9f, 0x9128b795, 0xb48b010b, 0x3b123801, 0x184ff736]"
  by (simp add: H256_def K256_5_def bsig0_def bsig1_def ch_def maj_def rotr_def)

lemma fp_module_rounds_6: "foldl round256 [0x5f8a3e39, 0x49470e6a, 0x7929a7c6, 0x6ab76e9f, 0x9128b795, 0xb48b010b, 0x3b123801, 0x184ff736] (zip K256_6 [0xc271fb60, 0x6b40919c, 0x5ba11110, 0xde002ae9, 0x1fe3ce9d, 0x7a79ba3e, 0x33df39c4, 0x9e24cf13]) = [0x85341b9, 0xbfa59bb, 0x802a154a, 0x867e555b, 0xcc57362e, 0x44a72aa3, 0xb525a464, 0x8545c417]"
  by (simp add: H256_def K256_6_def bsig0_def bsig1_def ch_def maj_def rotr_def)

lemma fp_module_rounds_7: "foldl round256 [0x85341b9, 0xbfa59bb, 0x802a154a, 0x867e555b, 0xcc57362e, 0x44a72aa3, 0xb525a464, 0x8545c417] (zip K256_7 [0xdf746cb7, 0xdec51373, 0x1a1b5a15, 0xd304b6f8, 0x84fd0554, 0x61c1507e, 0x618339d2, 0xe9022c8c]) = [0xfe9b1902, 0x43fd737c, 0x31a13d34, 0x4776875b, 0xbd06749, 0xbe757257, 0x591485ba, 0x7230d64e]"
  by (simp add: H256_def K256_7_def bsig0_def bsig1_def ch_def maj_def rotr_def)

lemma fp_module_zip: "zip K256 [0x73686f70, 0x2d70637c, 0x7838365f, 0x36347c78, 0x38365f36, 0x347c3030, 0x3a30303a, 0x30303a30, 0x303a3030, 0x3a303180, 0x0, 0x0, 0x0, 0x0, 0x0, 0x138, 0x92c488e5, 0xea8c0c25, 0x3737eb71, 0xba9c90e1, 0xabfd4336, 0x8dfb6654, 0xacf21c81, 0x8d23ab18, 0x74148494, 0x12343cd0, 0x8d62428a, 0x45f3c989, 0xf732b5e1, 0x4ad71336, 0x9e2b50f, 0xdb485c7d, 0x6aac654, 0xbbcab2fe, 0xa92ba3c5, 0xe9c3b711, 0xfdb63b3c, 0xd716a12c, 0x2d79175e, 0x1fa44acb, 0x8685b056, 0xfbaf1555, 0xcd7dfc77, 0x1c58fc47, 0xb0d27670, 0x8c68f7df, 0x972268ad, 0xe0524743, 0xc271fb60, 0x6b40919c, 0x5ba11110, 0xde002ae9, 0x1fe3ce9d, 0x7a79ba3e, 0x33df39c4, 0x9e24cf13, 0xdf746cb7, 0xdec51373, 0x1a1b5a15, 0xd304b6f8, 0x84fd0554, 0x61c1507e, 0x618339d2, 0xe9022c8c] = zip K256_0 [0x73686f70, 0x2d70637c, 0x7838365f, 0x36347c78, 0x38365f36, 0x347c3030, 0x3a30303a, 0x30303a30] @ zip K256_1 [0x303a3030, 0x3a303180, 0x0, 0x0, 0x0, 0x0, 0x0, 0x138] @ zip K256_2 [0x92c488e5, 0xea8c0c25, 0x3737eb71, 0xba9c90e1, 0xabfd4336, 0x8dfb6654, 0xacf21c81, 0x8d23ab18] @ zip K256_3 [0x74148494, 0x12343cd0, 0x8d62428a, 0x45f3c989, 0xf732b5e1, 0x4ad71336, 0x9e2b50f, 0xdb485c7d] @ zip K256_4 [0x6aac654, 0xbbcab2fe, 0xa92ba3c5, 0xe9c3b711, 0xfdb63b3c, 0xd716a12c, 0x2d79175e, 0x1fa44acb] @ zip K256_5 [0x8685b056, 0xfbaf1555, 0xcd7dfc77, 0x1c58fc47, 0xb0d27670, 0x8c68f7df, 0x972268ad, 0xe0524743] @ zip K256_6 [0xc271fb60, 0x6b40919c, 0x5ba11110, 0xde002ae9, 0x1fe3ce9d, 0x7a79ba3e, 0x33df39c4, 0x9e24cf13] @ zip K256_7 [0xdf746cb7, 0xdec51373, 0x1a1b5a15, 0xd304b6f8, 0x84fd0554, 0x61c1507e, 0x618339d2, 0xe9022c8c]"
  by (simp add: K256_def K256_0_def K256_1_def K256_2_def K256_3_def K256_4_def K256_5_def K256_6_def K256_7_def)

lemma fp_module_compress: "compress H256 [0x73686f70, 0x2d70637c, 0x7838365f, 0x36347c78, 0x38365f36, 0x347c3030, 0x3a30303a, 0x30303a30, 0x303a3030, 0x3a303180, 0x0, 0x0, 0x0, 0x0, 0x0, 0x138] = [0x68a4ff69, 0xff652201, 0x6e1030a6, 0xecc67c95, 0x5cdeb9c8, 0x597adae3, 0x78985f65, 0xce11a367]"
  by (simp only: compress_def fp_module_schedule fp_module_zip foldl_append fp_module_rounds_0 fp_module_rounds_1 fp_module_rounds_2 fp_module_rounds_3 fp_module_rounds_4 fp_module_rounds_5 fp_module_rounds_6 fp_module_rounds_7) (simp add: H256_def)

lemma fp_module_digest: "sha256_hexdigest ''shop-pc|x86_64|x86_64|00:00:00:00:00:01'' = ''68a4ff69ff6522016e1030a6ecc67c955cdeb9c8597adae378985f65ce11a367''"
  by (simp add: sha256_hexdigest_def sha256_def fp_module_block fp_module_compress word_bytes_def hexdigest_def hex_digit_def)

section \<open>The two fingerprint generators\<close>

text \<open>
  C10 at a failing input.  On the example host (a Linux machine named \<open>shop-pc\<close> with node
  id 1) the license manager binds the license to one fingerprint and the activation
  window shows another: the manager hashes the node id in decimal, the module hashes it
  as a MAC address and drops empty components.
\<close>

theorem fingerprints_disagree:
  "MachineFingerprint_generate example_host = ''19856ca00918ccda10a5ca671ef7fb99''
   \<and> generate_fingerprint example_host = ''68a4ff69ff6522016e1030a6ecc67c95''
   \<and> MachineFingerprint_generate example_host \<noteq> generate_fingerprint example_host"
  by (simp add: MachineFingerprint_generate_def generate_fingerprint_def
      fingerprint_str_example fingerprint_source_example fp_manager_digest fp_module_digest)

end
